theory Spec2Isabelle
  imports Main "HOL-Library.Sublist"
begin

section \<open>Python strings\<close>

text \<open>
  A Python \<^verbatim>\<open>str\<close> is a sequence of Unicode code points, and \<^verbatim>\<open>len\<close>,
  indexing, \<^verbatim>\<open>replace\<close> and \<^verbatim>\<open>in\<close> count code points. A string is therefore a
  list of code points, each a natural number. \<open>py\<close> embeds an ASCII literal.
\<close>

type_synonym codepoint = nat
type_synonym pystr = "codepoint list"

definition py :: "string \<Rightarrow> pystr" where
  "py s = map of_char s"

subsection \<open>Character properties\<close>

text \<open>
  \<^verbatim>\<open>str.isalnum\<close>, \<^verbatim>\<open>str.isdigit\<close> and \<^verbatim>\<open>str.lower\<close> read the Unicode
  character database that is compiled into the interpreter. The tables below are those of
  CPython 3.11 (Unicode 14.0.0), as inclusive ranges of code points:
  \<^item> \<open>alnum_ranges\<close>: the characters \<^verbatim>\<open>c\<close> with \<^verbatim>\<open>c.isalnum()\<close>;
  \<^item> \<open>digit_ranges\<close>: the characters with \<^verbatim>\<open>c.isdigit()\<close>;
  \<^item> \<open>cased_ranges\<close> and \<open>case_ignorable_ranges\<close>: the properties Cased and
    Case_Ignorable, which \<^verbatim>\<open>lower\<close> consults around a capital sigma;
  \<^item> \<open>lowercase_table\<close>: the one-to-one lowercase mappings. An entry
    \<open>(lo, hi, step, target)\<close> maps \<open>lo\<close>, \<open>lo + step\<close>, ... up to \<open>hi\<close> to
    \<open>target\<close>, \<open>target + step\<close>, ...; a code point in no entry is its own lowercase.
\<close>

definition alnum_ranges :: "(nat \<times> nat) list" where
  "alnum_ranges =
    [(0x30, 0x39), (0x41, 0x5A), (0x61, 0x7A), (0xAA, 0xAA), (0xB2, 0xB3), (0xB5, 0xB5),
     (0xB9, 0xBA), (0xBC, 0xBE), (0xC0, 0xD6), (0xD8, 0xF6), (0xF8, 0x2C1), (0x2C6, 0x2D1),
     (0x2E0, 0x2E4), (0x2EC, 0x2EC), (0x2EE, 0x2EE), (0x370, 0x374), (0x376, 0x377), (0x37A, 0x37D),
     (0x37F, 0x37F), (0x386, 0x386), (0x388, 0x38A), (0x38C, 0x38C), (0x38E, 0x3A1), (0x3A3, 0x3F5),
     (0x3F7, 0x481), (0x48A, 0x52F), (0x531, 0x556), (0x559, 0x559), (0x560, 0x588), (0x5D0, 0x5EA),
     (0x5EF, 0x5F2), (0x620, 0x64A), (0x660, 0x669), (0x66E, 0x66F), (0x671, 0x6D3), (0x6D5, 0x6D5),
     (0x6E5, 0x6E6), (0x6EE, 0x6FC), (0x6FF, 0x6FF), (0x710, 0x710), (0x712, 0x72F), (0x74D, 0x7A5),
     (0x7B1, 0x7B1), (0x7C0, 0x7EA), (0x7F4, 0x7F5), (0x7FA, 0x7FA), (0x800, 0x815), (0x81A, 0x81A),
     (0x824, 0x824), (0x828, 0x828), (0x840, 0x858), (0x860, 0x86A), (0x870, 0x887), (0x889, 0x88E),
     (0x8A0, 0x8C9), (0x904, 0x939), (0x93D, 0x93D), (0x950, 0x950), (0x958, 0x961), (0x966, 0x96F),
     (0x971, 0x980), (0x985, 0x98C), (0x98F, 0x990), (0x993, 0x9A8), (0x9AA, 0x9B0), (0x9B2, 0x9B2),
     (0x9B6, 0x9B9), (0x9BD, 0x9BD), (0x9CE, 0x9CE), (0x9DC, 0x9DD), (0x9DF, 0x9E1), (0x9E6, 0x9F1),
     (0x9F4, 0x9F9), (0x9FC, 0x9FC), (0xA05, 0xA0A), (0xA0F, 0xA10), (0xA13, 0xA28), (0xA2A, 0xA30),
     (0xA32, 0xA33), (0xA35, 0xA36), (0xA38, 0xA39), (0xA59, 0xA5C), (0xA5E, 0xA5E), (0xA66, 0xA6F),
     (0xA72, 0xA74), (0xA85, 0xA8D), (0xA8F, 0xA91), (0xA93, 0xAA8), (0xAAA, 0xAB0), (0xAB2, 0xAB3),
     (0xAB5, 0xAB9), (0xABD, 0xABD), (0xAD0, 0xAD0), (0xAE0, 0xAE1), (0xAE6, 0xAEF), (0xAF9, 0xAF9),
     (0xB05, 0xB0C), (0xB0F, 0xB10), (0xB13, 0xB28), (0xB2A, 0xB30), (0xB32, 0xB33), (0xB35, 0xB39),
     (0xB3D, 0xB3D), (0xB5C, 0xB5D), (0xB5F, 0xB61), (0xB66, 0xB6F), (0xB71, 0xB77), (0xB83, 0xB83),
     (0xB85, 0xB8A), (0xB8E, 0xB90), (0xB92, 0xB95), (0xB99, 0xB9A), (0xB9C, 0xB9C), (0xB9E, 0xB9F),
     (0xBA3, 0xBA4), (0xBA8, 0xBAA), (0xBAE, 0xBB9), (0xBD0, 0xBD0), (0xBE6, 0xBF2), (0xC05, 0xC0C),
     (0xC0E, 0xC10), (0xC12, 0xC28), (0xC2A, 0xC39), (0xC3D, 0xC3D), (0xC58, 0xC5A), (0xC5D, 0xC5D),
     (0xC60, 0xC61), (0xC66, 0xC6F), (0xC78, 0xC7E), (0xC80, 0xC80), (0xC85, 0xC8C), (0xC8E, 0xC90),
     (0xC92, 0xCA8), (0xCAA, 0xCB3), (0xCB5, 0xCB9), (0xCBD, 0xCBD), (0xCDD, 0xCDE), (0xCE0, 0xCE1),
     (0xCE6, 0xCEF), (0xCF1, 0xCF2), (0xD04, 0xD0C), (0xD0E, 0xD10), (0xD12, 0xD3A), (0xD3D, 0xD3D),
     (0xD4E, 0xD4E), (0xD54, 0xD56), (0xD58, 0xD61), (0xD66, 0xD78), (0xD7A, 0xD7F), (0xD85, 0xD96),
     (0xD9A, 0xDB1), (0xDB3, 0xDBB), (0xDBD, 0xDBD), (0xDC0, 0xDC6), (0xDE6, 0xDEF), (0xE01, 0xE30),
     (0xE32, 0xE33), (0xE40, 0xE46), (0xE50, 0xE59), (0xE81, 0xE82), (0xE84, 0xE84), (0xE86, 0xE8A),
     (0xE8C, 0xEA3), (0xEA5, 0xEA5), (0xEA7, 0xEB0), (0xEB2, 0xEB3), (0xEBD, 0xEBD), (0xEC0, 0xEC4),
     (0xEC6, 0xEC6), (0xED0, 0xED9), (0xEDC, 0xEDF), (0xF00, 0xF00), (0xF20, 0xF33), (0xF40, 0xF47),
     (0xF49, 0xF6C), (0xF88, 0xF8C), (0x1000, 0x102A), (0x103F, 0x1049), (0x1050, 0x1055), (0x105A, 0x105D),
     (0x1061, 0x1061), (0x1065, 0x1066), (0x106E, 0x1070), (0x1075, 0x1081), (0x108E, 0x108E), (0x1090, 0x1099),
     (0x10A0, 0x10C5), (0x10C7, 0x10C7), (0x10CD, 0x10CD), (0x10D0, 0x10FA), (0x10FC, 0x1248), (0x124A, 0x124D),
     (0x1250, 0x1256), (0x1258, 0x1258), (0x125A, 0x125D), (0x1260, 0x1288), (0x128A, 0x128D), (0x1290, 0x12B0),
     (0x12B2, 0x12B5), (0x12B8, 0x12BE), (0x12C0, 0x12C0), (0x12C2, 0x12C5), (0x12C8, 0x12D6), (0x12D8, 0x1310),
     (0x1312, 0x1315), (0x1318, 0x135A), (0x1369, 0x137C), (0x1380, 0x138F), (0x13A0, 0x13F5), (0x13F8, 0x13FD),
     (0x1401, 0x166C), (0x166F, 0x167F), (0x1681, 0x169A), (0x16A0, 0x16EA), (0x16EE, 0x16F8), (0x1700, 0x1711),
     (0x171F, 0x1731), (0x1740, 0x1751), (0x1760, 0x176C), (0x176E, 0x1770), (0x1780, 0x17B3), (0x17D7, 0x17D7),
     (0x17DC, 0x17DC), (0x17E0, 0x17E9), (0x17F0, 0x17F9), (0x1810, 0x1819), (0x1820, 0x1878), (0x1880, 0x1884),
     (0x1887, 0x18A8), (0x18AA, 0x18AA), (0x18B0, 0x18F5), (0x1900, 0x191E), (0x1946, 0x196D), (0x1970, 0x1974),
     (0x1980, 0x19AB), (0x19B0, 0x19C9), (0x19D0, 0x19DA), (0x1A00, 0x1A16), (0x1A20, 0x1A54), (0x1A80, 0x1A89),
     (0x1A90, 0x1A99), (0x1AA7, 0x1AA7), (0x1B05, 0x1B33), (0x1B45, 0x1B4C), (0x1B50, 0x1B59), (0x1B83, 0x1BA0),
     (0x1BAE, 0x1BE5), (0x1C00, 0x1C23), (0x1C40, 0x1C49), (0x1C4D, 0x1C7D), (0x1C80, 0x1C88), (0x1C90, 0x1CBA),
     (0x1CBD, 0x1CBF), (0x1CE9, 0x1CEC), (0x1CEE, 0x1CF3), (0x1CF5, 0x1CF6), (0x1CFA, 0x1CFA), (0x1D00, 0x1DBF),
     (0x1E00, 0x1F15), (0x1F18, 0x1F1D), (0x1F20, 0x1F45), (0x1F48, 0x1F4D), (0x1F50, 0x1F57), (0x1F59, 0x1F59),
     (0x1F5B, 0x1F5B), (0x1F5D, 0x1F5D), (0x1F5F, 0x1F7D), (0x1F80, 0x1FB4), (0x1FB6, 0x1FBC), (0x1FBE, 0x1FBE),
     (0x1FC2, 0x1FC4), (0x1FC6, 0x1FCC), (0x1FD0, 0x1FD3), (0x1FD6, 0x1FDB), (0x1FE0, 0x1FEC), (0x1FF2, 0x1FF4),
     (0x1FF6, 0x1FFC), (0x2070, 0x2071), (0x2074, 0x2079), (0x207F, 0x2089), (0x2090, 0x209C), (0x2102, 0x2102),
     (0x2107, 0x2107), (0x210A, 0x2113), (0x2115, 0x2115), (0x2119, 0x211D), (0x2124, 0x2124), (0x2126, 0x2126),
     (0x2128, 0x2128), (0x212A, 0x212D), (0x212F, 0x2139), (0x213C, 0x213F), (0x2145, 0x2149), (0x214E, 0x214E),
     (0x2150, 0x2189), (0x2460, 0x249B), (0x24EA, 0x24FF), (0x2776, 0x2793), (0x2C00, 0x2CE4), (0x2CEB, 0x2CEE),
     (0x2CF2, 0x2CF3), (0x2CFD, 0x2CFD), (0x2D00, 0x2D25), (0x2D27, 0x2D27), (0x2D2D, 0x2D2D), (0x2D30, 0x2D67),
     (0x2D6F, 0x2D6F), (0x2D80, 0x2D96), (0x2DA0, 0x2DA6), (0x2DA8, 0x2DAE), (0x2DB0, 0x2DB6), (0x2DB8, 0x2DBE),
     (0x2DC0, 0x2DC6), (0x2DC8, 0x2DCE), (0x2DD0, 0x2DD6), (0x2DD8, 0x2DDE), (0x2E2F, 0x2E2F), (0x3005, 0x3007),
     (0x3021, 0x3029), (0x3031, 0x3035), (0x3038, 0x303C), (0x3041, 0x3096), (0x309D, 0x309F), (0x30A1, 0x30FA),
     (0x30FC, 0x30FF), (0x3105, 0x312F), (0x3131, 0x318E), (0x3192, 0x3195), (0x31A0, 0x31BF), (0x31F0, 0x31FF),
     (0x3220, 0x3229), (0x3248, 0x324F), (0x3251, 0x325F), (0x3280, 0x3289), (0x32B1, 0x32BF), (0x3400, 0x4DBF),
     (0x4E00, 0xA48C), (0xA4D0, 0xA4FD), (0xA500, 0xA60C), (0xA610, 0xA62B), (0xA640, 0xA66E), (0xA67F, 0xA69D),
     (0xA6A0, 0xA6EF), (0xA717, 0xA71F), (0xA722, 0xA788), (0xA78B, 0xA7CA), (0xA7D0, 0xA7D1), (0xA7D3, 0xA7D3),
     (0xA7D5, 0xA7D9), (0xA7F2, 0xA801), (0xA803, 0xA805), (0xA807, 0xA80A), (0xA80C, 0xA822), (0xA830, 0xA835),
     (0xA840, 0xA873), (0xA882, 0xA8B3), (0xA8D0, 0xA8D9), (0xA8F2, 0xA8F7), (0xA8FB, 0xA8FB), (0xA8FD, 0xA8FE),
     (0xA900, 0xA925), (0xA930, 0xA946), (0xA960, 0xA97C), (0xA984, 0xA9B2), (0xA9CF, 0xA9D9), (0xA9E0, 0xA9E4),
     (0xA9E6, 0xA9FE), (0xAA00, 0xAA28), (0xAA40, 0xAA42), (0xAA44, 0xAA4B), (0xAA50, 0xAA59), (0xAA60, 0xAA76),
     (0xAA7A, 0xAA7A), (0xAA7E, 0xAAAF), (0xAAB1, 0xAAB1), (0xAAB5, 0xAAB6), (0xAAB9, 0xAABD), (0xAAC0, 0xAAC0),
     (0xAAC2, 0xAAC2), (0xAADB, 0xAADD), (0xAAE0, 0xAAEA), (0xAAF2, 0xAAF4), (0xAB01, 0xAB06), (0xAB09, 0xAB0E),
     (0xAB11, 0xAB16), (0xAB20, 0xAB26), (0xAB28, 0xAB2E), (0xAB30, 0xAB5A), (0xAB5C, 0xAB69), (0xAB70, 0xABE2),
     (0xABF0, 0xABF9), (0xAC00, 0xD7A3), (0xD7B0, 0xD7C6), (0xD7CB, 0xD7FB), (0xF900, 0xFA6D), (0xFA70, 0xFAD9),
     (0xFB00, 0xFB06), (0xFB13, 0xFB17), (0xFB1D, 0xFB1D), (0xFB1F, 0xFB28), (0xFB2A, 0xFB36), (0xFB38, 0xFB3C),
     (0xFB3E, 0xFB3E), (0xFB40, 0xFB41), (0xFB43, 0xFB44), (0xFB46, 0xFBB1), (0xFBD3, 0xFD3D), (0xFD50, 0xFD8F),
     (0xFD92, 0xFDC7), (0xFDF0, 0xFDFB), (0xFE70, 0xFE74), (0xFE76, 0xFEFC), (0xFF10, 0xFF19), (0xFF21, 0xFF3A),
     (0xFF41, 0xFF5A), (0xFF66, 0xFFBE), (0xFFC2, 0xFFC7), (0xFFCA, 0xFFCF), (0xFFD2, 0xFFD7), (0xFFDA, 0xFFDC),
     (0x10000, 0x1000B), (0x1000D, 0x10026), (0x10028, 0x1003A), (0x1003C, 0x1003D), (0x1003F, 0x1004D), (0x10050, 0x1005D),
     (0x10080, 0x100FA), (0x10107, 0x10133), (0x10140, 0x10178), (0x1018A, 0x1018B), (0x10280, 0x1029C), (0x102A0, 0x102D0),
     (0x102E1, 0x102FB), (0x10300, 0x10323), (0x1032D, 0x1034A), (0x10350, 0x10375), (0x10380, 0x1039D), (0x103A0, 0x103C3),
     (0x103C8, 0x103CF), (0x103D1, 0x103D5), (0x10400, 0x1049D), (0x104A0, 0x104A9), (0x104B0, 0x104D3), (0x104D8, 0x104FB),
     (0x10500, 0x10527), (0x10530, 0x10563), (0x10570, 0x1057A), (0x1057C, 0x1058A), (0x1058C, 0x10592), (0x10594, 0x10595),
     (0x10597, 0x105A1), (0x105A3, 0x105B1), (0x105B3, 0x105B9), (0x105BB, 0x105BC), (0x10600, 0x10736), (0x10740, 0x10755),
     (0x10760, 0x10767), (0x10780, 0x10785), (0x10787, 0x107B0), (0x107B2, 0x107BA), (0x10800, 0x10805), (0x10808, 0x10808),
     (0x1080A, 0x10835), (0x10837, 0x10838), (0x1083C, 0x1083C), (0x1083F, 0x10855), (0x10858, 0x10876), (0x10879, 0x1089E),
     (0x108A7, 0x108AF), (0x108E0, 0x108F2), (0x108F4, 0x108F5), (0x108FB, 0x1091B), (0x10920, 0x10939), (0x10980, 0x109B7),
     (0x109BC, 0x109CF), (0x109D2, 0x10A00), (0x10A10, 0x10A13), (0x10A15, 0x10A17), (0x10A19, 0x10A35), (0x10A40, 0x10A48),
     (0x10A60, 0x10A7E), (0x10A80, 0x10A9F), (0x10AC0, 0x10AC7), (0x10AC9, 0x10AE4), (0x10AEB, 0x10AEF), (0x10B00, 0x10B35),
     (0x10B40, 0x10B55), (0x10B58, 0x10B72), (0x10B78, 0x10B91), (0x10BA9, 0x10BAF), (0x10C00, 0x10C48), (0x10C80, 0x10CB2),
     (0x10CC0, 0x10CF2), (0x10CFA, 0x10D23), (0x10D30, 0x10D39), (0x10E60, 0x10E7E), (0x10E80, 0x10EA9), (0x10EB0, 0x10EB1),
     (0x10F00, 0x10F27), (0x10F30, 0x10F45), (0x10F51, 0x10F54), (0x10F70, 0x10F81), (0x10FB0, 0x10FCB), (0x10FE0, 0x10FF6),
     (0x11003, 0x11037), (0x11052, 0x1106F), (0x11071, 0x11072), (0x11075, 0x11075), (0x11083, 0x110AF), (0x110D0, 0x110E8),
     (0x110F0, 0x110F9), (0x11103, 0x11126), (0x11136, 0x1113F), (0x11144, 0x11144), (0x11147, 0x11147), (0x11150, 0x11172),
     (0x11176, 0x11176), (0x11183, 0x111B2), (0x111C1, 0x111C4), (0x111D0, 0x111DA), (0x111DC, 0x111DC), (0x111E1, 0x111F4),
     (0x11200, 0x11211), (0x11213, 0x1122B), (0x11280, 0x11286), (0x11288, 0x11288), (0x1128A, 0x1128D), (0x1128F, 0x1129D),
     (0x1129F, 0x112A8), (0x112B0, 0x112DE), (0x112F0, 0x112F9), (0x11305, 0x1130C), (0x1130F, 0x11310), (0x11313, 0x11328),
     (0x1132A, 0x11330), (0x11332, 0x11333), (0x11335, 0x11339), (0x1133D, 0x1133D), (0x11350, 0x11350), (0x1135D, 0x11361),
     (0x11400, 0x11434), (0x11447, 0x1144A), (0x11450, 0x11459), (0x1145F, 0x11461), (0x11480, 0x114AF), (0x114C4, 0x114C5),
     (0x114C7, 0x114C7), (0x114D0, 0x114D9), (0x11580, 0x115AE), (0x115D8, 0x115DB), (0x11600, 0x1162F), (0x11644, 0x11644),
     (0x11650, 0x11659), (0x11680, 0x116AA), (0x116B8, 0x116B8), (0x116C0, 0x116C9), (0x11700, 0x1171A), (0x11730, 0x1173B),
     (0x11740, 0x11746), (0x11800, 0x1182B), (0x118A0, 0x118F2), (0x118FF, 0x11906), (0x11909, 0x11909), (0x1190C, 0x11913),
     (0x11915, 0x11916), (0x11918, 0x1192F), (0x1193F, 0x1193F), (0x11941, 0x11941), (0x11950, 0x11959), (0x119A0, 0x119A7),
     (0x119AA, 0x119D0), (0x119E1, 0x119E1), (0x119E3, 0x119E3), (0x11A00, 0x11A00), (0x11A0B, 0x11A32), (0x11A3A, 0x11A3A),
     (0x11A50, 0x11A50), (0x11A5C, 0x11A89), (0x11A9D, 0x11A9D), (0x11AB0, 0x11AF8), (0x11C00, 0x11C08), (0x11C0A, 0x11C2E),
     (0x11C40, 0x11C40), (0x11C50, 0x11C6C), (0x11C72, 0x11C8F), (0x11D00, 0x11D06), (0x11D08, 0x11D09), (0x11D0B, 0x11D30),
     (0x11D46, 0x11D46), (0x11D50, 0x11D59), (0x11D60, 0x11D65), (0x11D67, 0x11D68), (0x11D6A, 0x11D89), (0x11D98, 0x11D98),
     (0x11DA0, 0x11DA9), (0x11EE0, 0x11EF2), (0x11FB0, 0x11FB0), (0x11FC0, 0x11FD4), (0x12000, 0x12399), (0x12400, 0x1246E),
     (0x12480, 0x12543), (0x12F90, 0x12FF0), (0x13000, 0x1342E), (0x14400, 0x14646), (0x16800, 0x16A38), (0x16A40, 0x16A5E),
     (0x16A60, 0x16A69), (0x16A70, 0x16ABE), (0x16AC0, 0x16AC9), (0x16AD0, 0x16AED), (0x16B00, 0x16B2F), (0x16B40, 0x16B43),
     (0x16B50, 0x16B59), (0x16B5B, 0x16B61), (0x16B63, 0x16B77), (0x16B7D, 0x16B8F), (0x16E40, 0x16E96), (0x16F00, 0x16F4A),
     (0x16F50, 0x16F50), (0x16F93, 0x16F9F), (0x16FE0, 0x16FE1), (0x16FE3, 0x16FE3), (0x17000, 0x187F7), (0x18800, 0x18CD5),
     (0x18D00, 0x18D08), (0x1AFF0, 0x1AFF3), (0x1AFF5, 0x1AFFB), (0x1AFFD, 0x1AFFE), (0x1B000, 0x1B122), (0x1B150, 0x1B152),
     (0x1B164, 0x1B167), (0x1B170, 0x1B2FB), (0x1BC00, 0x1BC6A), (0x1BC70, 0x1BC7C), (0x1BC80, 0x1BC88), (0x1BC90, 0x1BC99),
     (0x1D2E0, 0x1D2F3), (0x1D360, 0x1D378), (0x1D400, 0x1D454), (0x1D456, 0x1D49C), (0x1D49E, 0x1D49F), (0x1D4A2, 0x1D4A2),
     (0x1D4A5, 0x1D4A6), (0x1D4A9, 0x1D4AC), (0x1D4AE, 0x1D4B9), (0x1D4BB, 0x1D4BB), (0x1D4BD, 0x1D4C3), (0x1D4C5, 0x1D505),
     (0x1D507, 0x1D50A), (0x1D50D, 0x1D514), (0x1D516, 0x1D51C), (0x1D51E, 0x1D539), (0x1D53B, 0x1D53E), (0x1D540, 0x1D544),
     (0x1D546, 0x1D546), (0x1D54A, 0x1D550), (0x1D552, 0x1D6A5), (0x1D6A8, 0x1D6C0), (0x1D6C2, 0x1D6DA), (0x1D6DC, 0x1D6FA),
     (0x1D6FC, 0x1D714), (0x1D716, 0x1D734), (0x1D736, 0x1D74E), (0x1D750, 0x1D76E), (0x1D770, 0x1D788), (0x1D78A, 0x1D7A8),
     (0x1D7AA, 0x1D7C2), (0x1D7C4, 0x1D7CB), (0x1D7CE, 0x1D7FF), (0x1DF00, 0x1DF1E), (0x1E100, 0x1E12C), (0x1E137, 0x1E13D),
     (0x1E140, 0x1E149), (0x1E14E, 0x1E14E), (0x1E290, 0x1E2AD), (0x1E2C0, 0x1E2EB), (0x1E2F0, 0x1E2F9), (0x1E7E0, 0x1E7E6),
     (0x1E7E8, 0x1E7EB), (0x1E7ED, 0x1E7EE), (0x1E7F0, 0x1E7FE), (0x1E800, 0x1E8C4), (0x1E8C7, 0x1E8CF), (0x1E900, 0x1E943),
     (0x1E94B, 0x1E94B), (0x1E950, 0x1E959), (0x1EC71, 0x1ECAB), (0x1ECAD, 0x1ECAF), (0x1ECB1, 0x1ECB4), (0x1ED01, 0x1ED2D),
     (0x1ED2F, 0x1ED3D), (0x1EE00, 0x1EE03), (0x1EE05, 0x1EE1F), (0x1EE21, 0x1EE22), (0x1EE24, 0x1EE24), (0x1EE27, 0x1EE27),
     (0x1EE29, 0x1EE32), (0x1EE34, 0x1EE37), (0x1EE39, 0x1EE39), (0x1EE3B, 0x1EE3B), (0x1EE42, 0x1EE42), (0x1EE47, 0x1EE47),
     (0x1EE49, 0x1EE49), (0x1EE4B, 0x1EE4B), (0x1EE4D, 0x1EE4F), (0x1EE51, 0x1EE52), (0x1EE54, 0x1EE54), (0x1EE57, 0x1EE57),
     (0x1EE59, 0x1EE59), (0x1EE5B, 0x1EE5B), (0x1EE5D, 0x1EE5D), (0x1EE5F, 0x1EE5F), (0x1EE61, 0x1EE62), (0x1EE64, 0x1EE64),
     (0x1EE67, 0x1EE6A), (0x1EE6C, 0x1EE72), (0x1EE74, 0x1EE77), (0x1EE79, 0x1EE7C), (0x1EE7E, 0x1EE7E), (0x1EE80, 0x1EE89),
     (0x1EE8B, 0x1EE9B), (0x1EEA1, 0x1EEA3), (0x1EEA5, 0x1EEA9), (0x1EEAB, 0x1EEBB), (0x1F100, 0x1F10C), (0x1FBF0, 0x1FBF9),
     (0x20000, 0x2A6DF), (0x2A700, 0x2B738), (0x2B740, 0x2B81D), (0x2B820, 0x2CEA1), (0x2CEB0, 0x2EBE0), (0x2F800, 0x2FA1D),
     (0x30000, 0x3134A)]"

definition digit_ranges :: "(nat \<times> nat) list" where
  "digit_ranges =
    [(0x30, 0x39), (0xB2, 0xB3), (0xB9, 0xB9), (0x660, 0x669), (0x6F0, 0x6F9), (0x7C0, 0x7C9),
     (0x966, 0x96F), (0x9E6, 0x9EF), (0xA66, 0xA6F), (0xAE6, 0xAEF), (0xB66, 0xB6F), (0xBE6, 0xBEF),
     (0xC66, 0xC6F), (0xCE6, 0xCEF), (0xD66, 0xD6F), (0xDE6, 0xDEF), (0xE50, 0xE59), (0xED0, 0xED9),
     (0xF20, 0xF29), (0x1040, 0x1049), (0x1090, 0x1099), (0x1369, 0x1371), (0x17E0, 0x17E9), (0x1810, 0x1819),
     (0x1946, 0x194F), (0x19D0, 0x19DA), (0x1A80, 0x1A89), (0x1A90, 0x1A99), (0x1B50, 0x1B59), (0x1BB0, 0x1BB9),
     (0x1C40, 0x1C49), (0x1C50, 0x1C59), (0x2070, 0x2070), (0x2074, 0x2079), (0x2080, 0x2089), (0x2460, 0x2468),
     (0x2474, 0x247C), (0x2488, 0x2490), (0x24EA, 0x24EA), (0x24F5, 0x24FD), (0x24FF, 0x24FF), (0x2776, 0x277E),
     (0x2780, 0x2788), (0x278A, 0x2792), (0xA620, 0xA629), (0xA8D0, 0xA8D9), (0xA900, 0xA909), (0xA9D0, 0xA9D9),
     (0xA9F0, 0xA9F9), (0xAA50, 0xAA59), (0xABF0, 0xABF9), (0xFF10, 0xFF19), (0x104A0, 0x104A9), (0x10A40, 0x10A43),
     (0x10D30, 0x10D39), (0x10E60, 0x10E68), (0x11052, 0x1105A), (0x11066, 0x1106F), (0x110F0, 0x110F9), (0x11136, 0x1113F),
     (0x111D0, 0x111D9), (0x112F0, 0x112F9), (0x11450, 0x11459), (0x114D0, 0x114D9), (0x11650, 0x11659), (0x116C0, 0x116C9),
     (0x11730, 0x11739), (0x118E0, 0x118E9), (0x11950, 0x11959), (0x11C50, 0x11C59), (0x11D50, 0x11D59), (0x11DA0, 0x11DA9),
     (0x16A60, 0x16A69), (0x16AC0, 0x16AC9), (0x16B50, 0x16B59), (0x1D7CE, 0x1D7FF), (0x1E140, 0x1E149), (0x1E2F0, 0x1E2F9),
     (0x1E950, 0x1E959), (0x1F100, 0x1F10A), (0x1FBF0, 0x1FBF9)]"

definition cased_ranges :: "(nat \<times> nat) list" where
  "cased_ranges =
    [(0x41, 0x5A), (0x61, 0x7A), (0xAA, 0xAA), (0xB5, 0xB5), (0xBA, 0xBA), (0xC0, 0xD6),
     (0xD8, 0xF6), (0xF8, 0x1BA), (0x1BC, 0x1BF), (0x1C4, 0x293), (0x295, 0x2B8), (0x2C0, 0x2C1),
     (0x2E0, 0x2E4), (0x345, 0x345), (0x370, 0x373), (0x376, 0x377), (0x37A, 0x37D), (0x37F, 0x37F),
     (0x386, 0x386), (0x388, 0x38A), (0x38C, 0x38C), (0x38E, 0x3A1), (0x3A3, 0x3F5), (0x3F7, 0x481),
     (0x48A, 0x52F), (0x531, 0x556), (0x560, 0x588), (0x10A0, 0x10C5), (0x10C7, 0x10C7), (0x10CD, 0x10CD),
     (0x10D0, 0x10FA), (0x10FD, 0x10FF), (0x13A0, 0x13F5), (0x13F8, 0x13FD), (0x1C80, 0x1C88), (0x1C90, 0x1CBA),
     (0x1CBD, 0x1CBF), (0x1D00, 0x1DBF), (0x1E00, 0x1F15), (0x1F18, 0x1F1D), (0x1F20, 0x1F45), (0x1F48, 0x1F4D),
     (0x1F50, 0x1F57), (0x1F59, 0x1F59), (0x1F5B, 0x1F5B), (0x1F5D, 0x1F5D), (0x1F5F, 0x1F7D), (0x1F80, 0x1FB4),
     (0x1FB6, 0x1FBC), (0x1FBE, 0x1FBE), (0x1FC2, 0x1FC4), (0x1FC6, 0x1FCC), (0x1FD0, 0x1FD3), (0x1FD6, 0x1FDB),
     (0x1FE0, 0x1FEC), (0x1FF2, 0x1FF4), (0x1FF6, 0x1FFC), (0x2071, 0x2071), (0x207F, 0x207F), (0x2090, 0x209C),
     (0x2102, 0x2102), (0x2107, 0x2107), (0x210A, 0x2113), (0x2115, 0x2115), (0x2119, 0x211D), (0x2124, 0x2124),
     (0x2126, 0x2126), (0x2128, 0x2128), (0x212A, 0x212D), (0x212F, 0x2134), (0x2139, 0x2139), (0x213C, 0x213F),
     (0x2145, 0x2149), (0x214E, 0x214E), (0x2160, 0x217F), (0x2183, 0x2184), (0x24B6, 0x24E9), (0x2C00, 0x2CE4),
     (0x2CEB, 0x2CEE), (0x2CF2, 0x2CF3), (0x2D00, 0x2D25), (0x2D27, 0x2D27), (0x2D2D, 0x2D2D), (0xA640, 0xA66D),
     (0xA680, 0xA69D), (0xA722, 0xA787), (0xA78B, 0xA78E), (0xA790, 0xA7CA), (0xA7D0, 0xA7D1), (0xA7D3, 0xA7D3),
     (0xA7D5, 0xA7D9), (0xA7F5, 0xA7F6), (0xA7F8, 0xA7FA), (0xAB30, 0xAB5A), (0xAB5C, 0xAB68), (0xAB70, 0xABBF),
     (0xFB00, 0xFB06), (0xFB13, 0xFB17), (0xFF21, 0xFF3A), (0xFF41, 0xFF5A), (0x10400, 0x1044F), (0x104B0, 0x104D3),
     (0x104D8, 0x104FB), (0x10570, 0x1057A), (0x1057C, 0x1058A), (0x1058C, 0x10592), (0x10594, 0x10595), (0x10597, 0x105A1),
     (0x105A3, 0x105B1), (0x105B3, 0x105B9), (0x105BB, 0x105BC), (0x10780, 0x10780), (0x10783, 0x10785), (0x10787, 0x107B0),
     (0x107B2, 0x107BA), (0x10C80, 0x10CB2), (0x10CC0, 0x10CF2), (0x118A0, 0x118DF), (0x16E40, 0x16E7F), (0x1D400, 0x1D454),
     (0x1D456, 0x1D49C), (0x1D49E, 0x1D49F), (0x1D4A2, 0x1D4A2), (0x1D4A5, 0x1D4A6), (0x1D4A9, 0x1D4AC), (0x1D4AE, 0x1D4B9),
     (0x1D4BB, 0x1D4BB), (0x1D4BD, 0x1D4C3), (0x1D4C5, 0x1D505), (0x1D507, 0x1D50A), (0x1D50D, 0x1D514), (0x1D516, 0x1D51C),
     (0x1D51E, 0x1D539), (0x1D53B, 0x1D53E), (0x1D540, 0x1D544), (0x1D546, 0x1D546), (0x1D54A, 0x1D550), (0x1D552, 0x1D6A5),
     (0x1D6A8, 0x1D6C0), (0x1D6C2, 0x1D6DA), (0x1D6DC, 0x1D6FA), (0x1D6FC, 0x1D714), (0x1D716, 0x1D734), (0x1D736, 0x1D74E),
     (0x1D750, 0x1D76E), (0x1D770, 0x1D788), (0x1D78A, 0x1D7A8), (0x1D7AA, 0x1D7C2), (0x1D7C4, 0x1D7CB), (0x1DF00, 0x1DF09),
     (0x1DF0B, 0x1DF1E), (0x1E900, 0x1E943), (0x1F130, 0x1F149), (0x1F150, 0x1F169), (0x1F170, 0x1F189)]"

definition case_ignorable_ranges :: "(nat \<times> nat) list" where
  "case_ignorable_ranges =
    [(0x27, 0x27), (0x2E, 0x2E), (0x3A, 0x3A), (0x5E, 0x5E), (0x60, 0x60), (0xA8, 0xA8),
     (0xAD, 0xAD), (0xAF, 0xAF), (0xB4, 0xB4), (0xB7, 0xB8), (0x2B0, 0x36F), (0x374, 0x375),
     (0x37A, 0x37A), (0x384, 0x385), (0x387, 0x387), (0x483, 0x489), (0x559, 0x559), (0x55F, 0x55F),
     (0x591, 0x5BD), (0x5BF, 0x5BF), (0x5C1, 0x5C2), (0x5C4, 0x5C5), (0x5C7, 0x5C7), (0x5F4, 0x5F4),
     (0x600, 0x605), (0x610, 0x61A), (0x61C, 0x61C), (0x640, 0x640), (0x64B, 0x65F), (0x670, 0x670),
     (0x6D6, 0x6DD), (0x6DF, 0x6E8), (0x6EA, 0x6ED), (0x70F, 0x70F), (0x711, 0x711), (0x730, 0x74A),
     (0x7A6, 0x7B0), (0x7EB, 0x7F5), (0x7FA, 0x7FA), (0x7FD, 0x7FD), (0x816, 0x82D), (0x859, 0x85B),
     (0x888, 0x888), (0x890, 0x891), (0x898, 0x89F), (0x8C9, 0x902), (0x93A, 0x93A), (0x93C, 0x93C),
     (0x941, 0x948), (0x94D, 0x94D), (0x951, 0x957), (0x962, 0x963), (0x971, 0x971), (0x981, 0x981),
     (0x9BC, 0x9BC), (0x9C1, 0x9C4), (0x9CD, 0x9CD), (0x9E2, 0x9E3), (0x9FE, 0x9FE), (0xA01, 0xA02),
     (0xA3C, 0xA3C), (0xA41, 0xA42), (0xA47, 0xA48), (0xA4B, 0xA4D), (0xA51, 0xA51), (0xA70, 0xA71),
     (0xA75, 0xA75), (0xA81, 0xA82), (0xABC, 0xABC), (0xAC1, 0xAC5), (0xAC7, 0xAC8), (0xACD, 0xACD),
     (0xAE2, 0xAE3), (0xAFA, 0xAFF), (0xB01, 0xB01), (0xB3C, 0xB3C), (0xB3F, 0xB3F), (0xB41, 0xB44),
     (0xB4D, 0xB4D), (0xB55, 0xB56), (0xB62, 0xB63), (0xB82, 0xB82), (0xBC0, 0xBC0), (0xBCD, 0xBCD),
     (0xC00, 0xC00), (0xC04, 0xC04), (0xC3C, 0xC3C), (0xC3E, 0xC40), (0xC46, 0xC48), (0xC4A, 0xC4D),
     (0xC55, 0xC56), (0xC62, 0xC63), (0xC81, 0xC81), (0xCBC, 0xCBC), (0xCBF, 0xCBF), (0xCC6, 0xCC6),
     (0xCCC, 0xCCD), (0xCE2, 0xCE3), (0xD00, 0xD01), (0xD3B, 0xD3C), (0xD41, 0xD44), (0xD4D, 0xD4D),
     (0xD62, 0xD63), (0xD81, 0xD81), (0xDCA, 0xDCA), (0xDD2, 0xDD4), (0xDD6, 0xDD6), (0xE31, 0xE31),
     (0xE34, 0xE3A), (0xE46, 0xE4E), (0xEB1, 0xEB1), (0xEB4, 0xEBC), (0xEC6, 0xEC6), (0xEC8, 0xECD),
     (0xF18, 0xF19), (0xF35, 0xF35), (0xF37, 0xF37), (0xF39, 0xF39), (0xF71, 0xF7E), (0xF80, 0xF84),
     (0xF86, 0xF87), (0xF8D, 0xF97), (0xF99, 0xFBC), (0xFC6, 0xFC6), (0x102D, 0x1030), (0x1032, 0x1037),
     (0x1039, 0x103A), (0x103D, 0x103E), (0x1058, 0x1059), (0x105E, 0x1060), (0x1071, 0x1074), (0x1082, 0x1082),
     (0x1085, 0x1086), (0x108D, 0x108D), (0x109D, 0x109D), (0x10FC, 0x10FC), (0x135D, 0x135F), (0x1712, 0x1714),
     (0x1732, 0x1733), (0x1752, 0x1753), (0x1772, 0x1773), (0x17B4, 0x17B5), (0x17B7, 0x17BD), (0x17C6, 0x17C6),
     (0x17C9, 0x17D3), (0x17D7, 0x17D7), (0x17DD, 0x17DD), (0x180B, 0x180F), (0x1843, 0x1843), (0x1885, 0x1886),
     (0x18A9, 0x18A9), (0x1920, 0x1922), (0x1927, 0x1928), (0x1932, 0x1932), (0x1939, 0x193B), (0x1A17, 0x1A18),
     (0x1A1B, 0x1A1B), (0x1A56, 0x1A56), (0x1A58, 0x1A5E), (0x1A60, 0x1A60), (0x1A62, 0x1A62), (0x1A65, 0x1A6C),
     (0x1A73, 0x1A7C), (0x1A7F, 0x1A7F), (0x1AA7, 0x1AA7), (0x1AB0, 0x1ACE), (0x1B00, 0x1B03), (0x1B34, 0x1B34),
     (0x1B36, 0x1B3A), (0x1B3C, 0x1B3C), (0x1B42, 0x1B42), (0x1B6B, 0x1B73), (0x1B80, 0x1B81), (0x1BA2, 0x1BA5),
     (0x1BA8, 0x1BA9), (0x1BAB, 0x1BAD), (0x1BE6, 0x1BE6), (0x1BE8, 0x1BE9), (0x1BED, 0x1BED), (0x1BEF, 0x1BF1),
     (0x1C2C, 0x1C33), (0x1C36, 0x1C37), (0x1C78, 0x1C7D), (0x1CD0, 0x1CD2), (0x1CD4, 0x1CE0), (0x1CE2, 0x1CE8),
     (0x1CED, 0x1CED), (0x1CF4, 0x1CF4), (0x1CF8, 0x1CF9), (0x1D2C, 0x1D6A), (0x1D78, 0x1D78), (0x1D9B, 0x1DFF),
     (0x1FBD, 0x1FBD), (0x1FBF, 0x1FC1), (0x1FCD, 0x1FCF), (0x1FDD, 0x1FDF), (0x1FED, 0x1FEF), (0x1FFD, 0x1FFE),
     (0x200B, 0x200F), (0x2018, 0x2019), (0x2024, 0x2024), (0x2027, 0x2027), (0x202A, 0x202E), (0x2060, 0x2064),
     (0x2066, 0x206F), (0x2071, 0x2071), (0x207F, 0x207F), (0x2090, 0x209C), (0x20D0, 0x20F0), (0x2C7C, 0x2C7D),
     (0x2CEF, 0x2CF1), (0x2D6F, 0x2D6F), (0x2D7F, 0x2D7F), (0x2DE0, 0x2DFF), (0x2E2F, 0x2E2F), (0x3005, 0x3005),
     (0x302A, 0x302D), (0x3031, 0x3035), (0x303B, 0x303B), (0x3099, 0x309E), (0x30FC, 0x30FE), (0xA015, 0xA015),
     (0xA4F8, 0xA4FD), (0xA60C, 0xA60C), (0xA66F, 0xA672), (0xA674, 0xA67D), (0xA67F, 0xA67F), (0xA69C, 0xA69F),
     (0xA6F0, 0xA6F1), (0xA700, 0xA721), (0xA770, 0xA770), (0xA788, 0xA78A), (0xA7F2, 0xA7F4), (0xA7F8, 0xA7F9),
     (0xA802, 0xA802), (0xA806, 0xA806), (0xA80B, 0xA80B), (0xA825, 0xA826), (0xA82C, 0xA82C), (0xA8C4, 0xA8C5),
     (0xA8E0, 0xA8F1), (0xA8FF, 0xA8FF), (0xA926, 0xA92D), (0xA947, 0xA951), (0xA980, 0xA982), (0xA9B3, 0xA9B3),
     (0xA9B6, 0xA9B9), (0xA9BC, 0xA9BD), (0xA9CF, 0xA9CF), (0xA9E5, 0xA9E6), (0xAA29, 0xAA2E), (0xAA31, 0xAA32),
     (0xAA35, 0xAA36), (0xAA43, 0xAA43), (0xAA4C, 0xAA4C), (0xAA70, 0xAA70), (0xAA7C, 0xAA7C), (0xAAB0, 0xAAB0),
     (0xAAB2, 0xAAB4), (0xAAB7, 0xAAB8), (0xAABE, 0xAABF), (0xAAC1, 0xAAC1), (0xAADD, 0xAADD), (0xAAEC, 0xAAED),
     (0xAAF3, 0xAAF4), (0xAAF6, 0xAAF6), (0xAB5B, 0xAB5F), (0xAB69, 0xAB6B), (0xABE5, 0xABE5), (0xABE8, 0xABE8),
     (0xABED, 0xABED), (0xFB1E, 0xFB1E), (0xFBB2, 0xFBC2), (0xFE00, 0xFE0F), (0xFE13, 0xFE13), (0xFE20, 0xFE2F),
     (0xFE52, 0xFE52), (0xFE55, 0xFE55), (0xFEFF, 0xFEFF), (0xFF07, 0xFF07), (0xFF0E, 0xFF0E), (0xFF1A, 0xFF1A),
     (0xFF3E, 0xFF3E), (0xFF40, 0xFF40), (0xFF70, 0xFF70), (0xFF9E, 0xFF9F), (0xFFE3, 0xFFE3), (0xFFF9, 0xFFFB),
     (0x101FD, 0x101FD), (0x102E0, 0x102E0), (0x10376, 0x1037A), (0x10780, 0x10785), (0x10787, 0x107B0), (0x107B2, 0x107BA),
     (0x10A01, 0x10A03), (0x10A05, 0x10A06), (0x10A0C, 0x10A0F), (0x10A38, 0x10A3A), (0x10A3F, 0x10A3F), (0x10AE5, 0x10AE6),
     (0x10D24, 0x10D27), (0x10EAB, 0x10EAC), (0x10F46, 0x10F50), (0x10F82, 0x10F85), (0x11001, 0x11001), (0x11038, 0x11046),
     (0x11070, 0x11070), (0x11073, 0x11074), (0x1107F, 0x11081), (0x110B3, 0x110B6), (0x110B9, 0x110BA), (0x110BD, 0x110BD),
     (0x110C2, 0x110C2), (0x110CD, 0x110CD), (0x11100, 0x11102), (0x11127, 0x1112B), (0x1112D, 0x11134), (0x11173, 0x11173),
     (0x11180, 0x11181), (0x111B6, 0x111BE), (0x111C9, 0x111CC), (0x111CF, 0x111CF), (0x1122F, 0x11231), (0x11234, 0x11234),
     (0x11236, 0x11237), (0x1123E, 0x1123E), (0x112DF, 0x112DF), (0x112E3, 0x112EA), (0x11300, 0x11301), (0x1133B, 0x1133C),
     (0x11340, 0x11340), (0x11366, 0x1136C), (0x11370, 0x11374), (0x11438, 0x1143F), (0x11442, 0x11444), (0x11446, 0x11446),
     (0x1145E, 0x1145E), (0x114B3, 0x114B8), (0x114BA, 0x114BA), (0x114BF, 0x114C0), (0x114C2, 0x114C3), (0x115B2, 0x115B5),
     (0x115BC, 0x115BD), (0x115BF, 0x115C0), (0x115DC, 0x115DD), (0x11633, 0x1163A), (0x1163D, 0x1163D), (0x1163F, 0x11640),
     (0x116AB, 0x116AB), (0x116AD, 0x116AD), (0x116B0, 0x116B5), (0x116B7, 0x116B7), (0x1171D, 0x1171F), (0x11722, 0x11725),
     (0x11727, 0x1172B), (0x1182F, 0x11837), (0x11839, 0x1183A), (0x1193B, 0x1193C), (0x1193E, 0x1193E), (0x11943, 0x11943),
     (0x119D4, 0x119D7), (0x119DA, 0x119DB), (0x119E0, 0x119E0), (0x11A01, 0x11A0A), (0x11A33, 0x11A38), (0x11A3B, 0x11A3E),
     (0x11A47, 0x11A47), (0x11A51, 0x11A56), (0x11A59, 0x11A5B), (0x11A8A, 0x11A96), (0x11A98, 0x11A99), (0x11C30, 0x11C36),
     (0x11C38, 0x11C3D), (0x11C3F, 0x11C3F), (0x11C92, 0x11CA7), (0x11CAA, 0x11CB0), (0x11CB2, 0x11CB3), (0x11CB5, 0x11CB6),
     (0x11D31, 0x11D36), (0x11D3A, 0x11D3A), (0x11D3C, 0x11D3D), (0x11D3F, 0x11D45), (0x11D47, 0x11D47), (0x11D90, 0x11D91),
     (0x11D95, 0x11D95), (0x11D97, 0x11D97), (0x11EF3, 0x11EF4), (0x13430, 0x13438), (0x16AF0, 0x16AF4), (0x16B30, 0x16B36),
     (0x16B40, 0x16B43), (0x16F4F, 0x16F4F), (0x16F8F, 0x16F9F), (0x16FE0, 0x16FE1), (0x16FE3, 0x16FE4), (0x1AFF0, 0x1AFF3),
     (0x1AFF5, 0x1AFFB), (0x1AFFD, 0x1AFFE), (0x1BC9D, 0x1BC9E), (0x1BCA0, 0x1BCA3), (0x1CF00, 0x1CF2D), (0x1CF30, 0x1CF46),
     (0x1D167, 0x1D169), (0x1D173, 0x1D182), (0x1D185, 0x1D18B), (0x1D1AA, 0x1D1AD), (0x1D242, 0x1D244), (0x1DA00, 0x1DA36),
     (0x1DA3B, 0x1DA6C), (0x1DA75, 0x1DA75), (0x1DA84, 0x1DA84), (0x1DA9B, 0x1DA9F), (0x1DAA1, 0x1DAAF), (0x1E000, 0x1E006),
     (0x1E008, 0x1E018), (0x1E01B, 0x1E021), (0x1E023, 0x1E024), (0x1E026, 0x1E02A), (0x1E130, 0x1E13D), (0x1E2AE, 0x1E2AE),
     (0x1E2EC, 0x1E2EF), (0x1E8D0, 0x1E8D6), (0x1E944, 0x1E94B), (0x1F3FB, 0x1F3FF), (0xE0001, 0xE0001), (0xE0020, 0xE007F),
     (0xE0100, 0xE01EF)]"

definition lowercase_table :: "(nat \<times> nat \<times> nat \<times> nat) list" where
  "lowercase_table =
    [(0x41, 0x5A, 1, 0x61), (0xC0, 0xD6, 1, 0xE0), (0xD8, 0xDE, 1, 0xF8), (0x100, 0x12E, 2, 0x101),
     (0x132, 0x136, 2, 0x133), (0x139, 0x147, 2, 0x13A), (0x14A, 0x176, 2, 0x14B), (0x178, 0x178, 1, 0xFF),
     (0x179, 0x17D, 2, 0x17A), (0x181, 0x181, 1, 0x253), (0x182, 0x184, 2, 0x183), (0x186, 0x186, 1, 0x254),
     (0x187, 0x187, 1, 0x188), (0x189, 0x18A, 1, 0x256), (0x18B, 0x18B, 1, 0x18C), (0x18E, 0x18E, 1, 0x1DD),
     (0x18F, 0x18F, 1, 0x259), (0x190, 0x190, 1, 0x25B), (0x191, 0x191, 1, 0x192), (0x193, 0x193, 1, 0x260),
     (0x194, 0x194, 1, 0x263), (0x196, 0x196, 1, 0x269), (0x197, 0x197, 1, 0x268), (0x198, 0x198, 1, 0x199),
     (0x19C, 0x19C, 1, 0x26F), (0x19D, 0x19D, 1, 0x272), (0x19F, 0x19F, 1, 0x275), (0x1A0, 0x1A4, 2, 0x1A1),
     (0x1A6, 0x1A6, 1, 0x280), (0x1A7, 0x1A7, 1, 0x1A8), (0x1A9, 0x1A9, 1, 0x283), (0x1AC, 0x1AC, 1, 0x1AD),
     (0x1AE, 0x1AE, 1, 0x288), (0x1AF, 0x1AF, 1, 0x1B0), (0x1B1, 0x1B2, 1, 0x28A), (0x1B3, 0x1B5, 2, 0x1B4),
     (0x1B7, 0x1B7, 1, 0x292), (0x1B8, 0x1B8, 1, 0x1B9), (0x1BC, 0x1BC, 1, 0x1BD), (0x1C4, 0x1C4, 1, 0x1C6),
     (0x1C5, 0x1C5, 1, 0x1C6), (0x1C7, 0x1C7, 1, 0x1C9), (0x1C8, 0x1C8, 1, 0x1C9), (0x1CA, 0x1CA, 1, 0x1CC),
     (0x1CB, 0x1DB, 2, 0x1CC), (0x1DE, 0x1EE, 2, 0x1DF), (0x1F1, 0x1F1, 1, 0x1F3), (0x1F2, 0x1F4, 2, 0x1F3),
     (0x1F6, 0x1F6, 1, 0x195), (0x1F7, 0x1F7, 1, 0x1BF), (0x1F8, 0x21E, 2, 0x1F9), (0x220, 0x220, 1, 0x19E),
     (0x222, 0x232, 2, 0x223), (0x23A, 0x23A, 1, 0x2C65), (0x23B, 0x23B, 1, 0x23C), (0x23D, 0x23D, 1, 0x19A),
     (0x23E, 0x23E, 1, 0x2C66), (0x241, 0x241, 1, 0x242), (0x243, 0x243, 1, 0x180), (0x244, 0x244, 1, 0x289),
     (0x245, 0x245, 1, 0x28C), (0x246, 0x24E, 2, 0x247), (0x370, 0x372, 2, 0x371), (0x376, 0x376, 1, 0x377),
     (0x37F, 0x37F, 1, 0x3F3), (0x386, 0x386, 1, 0x3AC), (0x388, 0x38A, 1, 0x3AD), (0x38C, 0x38C, 1, 0x3CC),
     (0x38E, 0x38F, 1, 0x3CD), (0x391, 0x3A1, 1, 0x3B1), (0x3A3, 0x3AB, 1, 0x3C3), (0x3CF, 0x3CF, 1, 0x3D7),
     (0x3D8, 0x3EE, 2, 0x3D9), (0x3F4, 0x3F4, 1, 0x3B8), (0x3F7, 0x3F7, 1, 0x3F8), (0x3F9, 0x3F9, 1, 0x3F2),
     (0x3FA, 0x3FA, 1, 0x3FB), (0x3FD, 0x3FF, 1, 0x37B), (0x400, 0x40F, 1, 0x450), (0x410, 0x42F, 1, 0x430),
     (0x460, 0x480, 2, 0x461), (0x48A, 0x4BE, 2, 0x48B), (0x4C0, 0x4C0, 1, 0x4CF), (0x4C1, 0x4CD, 2, 0x4C2),
     (0x4D0, 0x52E, 2, 0x4D1), (0x531, 0x556, 1, 0x561), (0x10A0, 0x10C5, 1, 0x2D00), (0x10C7, 0x10C7, 1, 0x2D27),
     (0x10CD, 0x10CD, 1, 0x2D2D), (0x13A0, 0x13EF, 1, 0xAB70), (0x13F0, 0x13F5, 1, 0x13F8), (0x1C90, 0x1CBA, 1, 0x10D0),
     (0x1CBD, 0x1CBF, 1, 0x10FD), (0x1E00, 0x1E94, 2, 0x1E01), (0x1E9E, 0x1E9E, 1, 0xDF), (0x1EA0, 0x1EFE, 2, 0x1EA1),
     (0x1F08, 0x1F0F, 1, 0x1F00), (0x1F18, 0x1F1D, 1, 0x1F10), (0x1F28, 0x1F2F, 1, 0x1F20), (0x1F38, 0x1F3F, 1, 0x1F30),
     (0x1F48, 0x1F4D, 1, 0x1F40), (0x1F59, 0x1F5F, 2, 0x1F51), (0x1F68, 0x1F6F, 1, 0x1F60), (0x1F88, 0x1F8F, 1, 0x1F80),
     (0x1F98, 0x1F9F, 1, 0x1F90), (0x1FA8, 0x1FAF, 1, 0x1FA0), (0x1FB8, 0x1FB9, 1, 0x1FB0), (0x1FBA, 0x1FBB, 1, 0x1F70),
     (0x1FBC, 0x1FBC, 1, 0x1FB3), (0x1FC8, 0x1FCB, 1, 0x1F72), (0x1FCC, 0x1FCC, 1, 0x1FC3), (0x1FD8, 0x1FD9, 1, 0x1FD0),
     (0x1FDA, 0x1FDB, 1, 0x1F76), (0x1FE8, 0x1FE9, 1, 0x1FE0), (0x1FEA, 0x1FEB, 1, 0x1F7A), (0x1FEC, 0x1FEC, 1, 0x1FE5),
     (0x1FF8, 0x1FF9, 1, 0x1F78), (0x1FFA, 0x1FFB, 1, 0x1F7C), (0x1FFC, 0x1FFC, 1, 0x1FF3), (0x2126, 0x2126, 1, 0x3C9),
     (0x212A, 0x212A, 1, 0x6B), (0x212B, 0x212B, 1, 0xE5), (0x2132, 0x2132, 1, 0x214E), (0x2160, 0x216F, 1, 0x2170),
     (0x2183, 0x2183, 1, 0x2184), (0x24B6, 0x24CF, 1, 0x24D0), (0x2C00, 0x2C2F, 1, 0x2C30), (0x2C60, 0x2C60, 1, 0x2C61),
     (0x2C62, 0x2C62, 1, 0x26B), (0x2C63, 0x2C63, 1, 0x1D7D), (0x2C64, 0x2C64, 1, 0x27D), (0x2C67, 0x2C6B, 2, 0x2C68),
     (0x2C6D, 0x2C6D, 1, 0x251), (0x2C6E, 0x2C6E, 1, 0x271), (0x2C6F, 0x2C6F, 1, 0x250), (0x2C70, 0x2C70, 1, 0x252),
     (0x2C72, 0x2C72, 1, 0x2C73), (0x2C75, 0x2C75, 1, 0x2C76), (0x2C7E, 0x2C7F, 1, 0x23F), (0x2C80, 0x2CE2, 2, 0x2C81),
     (0x2CEB, 0x2CED, 2, 0x2CEC), (0x2CF2, 0x2CF2, 1, 0x2CF3), (0xA640, 0xA66C, 2, 0xA641), (0xA680, 0xA69A, 2, 0xA681),
     (0xA722, 0xA72E, 2, 0xA723), (0xA732, 0xA76E, 2, 0xA733), (0xA779, 0xA77B, 2, 0xA77A), (0xA77D, 0xA77D, 1, 0x1D79),
     (0xA77E, 0xA786, 2, 0xA77F), (0xA78B, 0xA78B, 1, 0xA78C), (0xA78D, 0xA78D, 1, 0x265), (0xA790, 0xA792, 2, 0xA791),
     (0xA796, 0xA7A8, 2, 0xA797), (0xA7AA, 0xA7AA, 1, 0x266), (0xA7AB, 0xA7AB, 1, 0x25C), (0xA7AC, 0xA7AC, 1, 0x261),
     (0xA7AD, 0xA7AD, 1, 0x26C), (0xA7AE, 0xA7AE, 1, 0x26A), (0xA7B0, 0xA7B0, 1, 0x29E), (0xA7B1, 0xA7B1, 1, 0x287),
     (0xA7B2, 0xA7B2, 1, 0x29D), (0xA7B3, 0xA7B3, 1, 0xAB53), (0xA7B4, 0xA7C2, 2, 0xA7B5), (0xA7C4, 0xA7C4, 1, 0xA794),
     (0xA7C5, 0xA7C5, 1, 0x282), (0xA7C6, 0xA7C6, 1, 0x1D8E), (0xA7C7, 0xA7C9, 2, 0xA7C8), (0xA7D0, 0xA7D0, 1, 0xA7D1),
     (0xA7D6, 0xA7D8, 2, 0xA7D7), (0xA7F5, 0xA7F5, 1, 0xA7F6), (0xFF21, 0xFF3A, 1, 0xFF41), (0x10400, 0x10427, 1, 0x10428),
     (0x104B0, 0x104D3, 1, 0x104D8), (0x10570, 0x10594, 2, 0x10597), (0x10571, 0x10579, 2, 0x10598), (0x1057D, 0x10589, 2, 0x105A4),
     (0x1058D, 0x10591, 2, 0x105B4), (0x10595, 0x10595, 1, 0x105BC), (0x10C80, 0x10CB2, 1, 0x10CC0), (0x118A0, 0x118BF, 1, 0x118C0),
     (0x16E40, 0x16E5F, 1, 0x16E60), (0x1E900, 0x1E921, 1, 0x1E922)]"

fun in_ranges :: "codepoint \<Rightarrow> (nat \<times> nat) list \<Rightarrow> bool" where
  "in_ranges c [] = False"
| "in_ranges c ((lo, hi) # rs) = ((lo \<le> c \<and> c \<le> hi) \<or> in_ranges c rs)"

definition py_isalnum :: "codepoint \<Rightarrow> bool" where
  "py_isalnum c = in_ranges c alnum_ranges"

definition py_isdigit :: "codepoint \<Rightarrow> bool" where
  "py_isdigit c = in_ranges c digit_ranges"

definition is_cased :: "codepoint \<Rightarrow> bool" where
  "is_cased c = in_ranges c cased_ranges"

definition is_case_ignorable :: "codepoint \<Rightarrow> bool" where
  "is_case_ignorable c = in_ranges c case_ignorable_ranges"

fun lookup_lower :: "codepoint \<Rightarrow> (nat \<times> nat \<times> nat \<times> nat) list \<Rightarrow> codepoint option" where
  "lookup_lower c [] = None"
| "lookup_lower c ((lo, hi, step, target) # es) =
     (if lo \<le> c \<and> c \<le> hi \<and> (c - lo) mod step = 0 then Some (target + (c - lo))
      else lookup_lower c es)"

text \<open>
  The lowercase of one character outside any context. U+0130 (capital I with dot above)
  is the only character whose lowercase is two code points: \<open>i\<close> and the combining dot
  U+0307.
\<close>

definition lower_cp :: "codepoint \<Rightarrow> pystr" where
  "lower_cp c =
     (if c = 0x130 then [0x69, 0x307]
      else case lookup_lower c lowercase_table of None \<Rightarrow> [c] | Some d \<Rightarrow> [d])"

text \<open>
  A capital sigma U+03A3 becomes the final sigma U+03C2 when it follows a cased character
  and no cased character follows it, case-ignorable characters skipped on both sides, and
  the small sigma U+03C3 otherwise. \<open>left\<close> holds the characters to the left of the
  sigma, nearest first.
\<close>

definition handle_capital_sigma :: "pystr \<Rightarrow> pystr \<Rightarrow> codepoint" where
  "handle_capital_sigma left right =
     (case dropWhile is_case_ignorable left of
        [] \<Rightarrow> 0x3C3
      | b # _ \<Rightarrow>
          if is_cased b then
            (case dropWhile is_case_ignorable right of
               [] \<Rightarrow> 0x3C2
             | a # _ \<Rightarrow> if is_cased a then 0x3C3 else 0x3C2)
          else 0x3C3)"

fun lower_from :: "pystr \<Rightarrow> pystr \<Rightarrow> pystr" where
  "lower_from left [] = []"
| "lower_from left (c # cs) =
     (if c = 0x3A3 then [handle_capital_sigma left cs] else lower_cp c)
       @ lower_from (c # left) cs"

definition py_lower :: "pystr \<Rightarrow> pystr" where
  "py_lower s = lower_from [] s"

subsection \<open>Searching and replacing\<close>

text \<open>\<^verbatim>\<open>sub in s\<close>: \<open>sub\<close> occurs in \<open>s\<close> as a contiguous substring.\<close>

fun py_in :: "pystr \<Rightarrow> pystr \<Rightarrow> bool" where
  "py_in sub [] = (sub = [])"
| "py_in sub (c # cs) = (prefix sub (c # cs) \<or> py_in sub cs)"

text \<open>
  \<^verbatim>\<open>s.replace(old, new)\<close> replaces every occurrence of \<open>old\<close>, found from left to
  right without overlap. An empty \<open>old\<close> matches before every character and at the end.
\<close>

fun replace_occurrences :: "pystr \<Rightarrow> pystr \<Rightarrow> pystr \<Rightarrow> pystr" where
  "replace_occurrences old new [] = []"
| "replace_occurrences old new (c # cs) =
     (if old \<noteq> [] \<and> prefix old (c # cs)
      then new @ replace_occurrences old new (drop (length old) (c # cs))
      else c # replace_occurrences old new cs)"

definition py_replace :: "pystr \<Rightarrow> pystr \<Rightarrow> pystr \<Rightarrow> pystr" where
  "py_replace s old new =
     (if old = [] then new @ concat (map (\<lambda>c. c # new) s)
      else replace_occurrences old new s)"

text \<open>\<^verbatim>\<open>sep.join(xs)\<close>.\<close>

fun py_join :: "pystr \<Rightarrow> pystr list \<Rightarrow> pystr" where
  "py_join sep [] = []"
| "py_join sep [x] = x"
| "py_join sep (x # y # ys) = x @ sep @ py_join sep (y # ys)"

section \<open>The column sanitizer\<close>

datatype py_exception =
    IndexError
  | UnboundLocalError pystr
  | Exception pystr
  | FileNotFoundError pystr
  | LibraryError pystr

text \<open>
  \<^verbatim>\<open>clean_column_name\<close> (utils/database.py). The two substitutions are kept apart so
  that statements can speak of the intermediate string. \<^verbatim>\<open>clean_name[0]\<close> raises
  IndexError on the empty string.
\<close>

definition replace_spaces :: "pystr \<Rightarrow> pystr" where
  "replace_spaces name = py_replace name (py '' '') (py ''_'')"

definition replace_special :: "pystr \<Rightarrow> pystr" where
  "replace_special clean_name =
     concat (map (\<lambda>c. if py_isalnum c \<or> [c] = py ''_'' then [c] else py ''_'') clean_name)"

definition clean_column_name :: "pystr \<Rightarrow> py_exception + pystr" where
  "clean_column_name name =
     (let clean_name = replace_special (replace_spaces name)
      in case clean_name of
           [] \<Rightarrow> Inl IndexError
         | c0 # _ \<Rightarrow>
             Inr (py_lower (if py_isdigit c0 then py ''col_'' @ clean_name else clean_name)))"

section \<open>Loading a CSV file\<close>

text \<open>
  A pandas DataFrame, as far as the program looks at it: the column labels in order, the
  column types and the rows. The cells are of any type \<open>'v\<close>. A table of the database holds
  the same three things, so a connection to the in-memory SQLite database is a map from table
  names to frames. SQLite compares table names without regard to ASCII case; \<open>table_key\<close>
  folds a name accordingly.
\<close>

record 'v dataframe =
  columns :: "pystr list"
  dtypes :: "pystr list"
  rows :: "'v list list"

type_synonym 'v conn = "pystr \<rightharpoonup> 'v dataframe"

definition table_key :: "pystr \<Rightarrow> pystr" where
  "table_key name = map (\<lambda>c. if 0x41 \<le> c \<and> c \<le> 0x5A then c + 0x20 else c) name"

text \<open>
  The list comprehension \<^verbatim>\<open>[clean_column_name(col) for col in df.columns]\<close>: the first
  exception ends it.
\<close>

fun clean_columns :: "pystr list \<Rightarrow> py_exception + pystr list" where
  "clean_columns [] = Inr []"
| "clean_columns (col # cols) =
     (case clean_column_name col of
        Inl ex \<Rightarrow> Inl ex
      | Inr c \<Rightarrow> (case clean_columns cols of Inl ex \<Rightarrow> Inl ex | Inr cs \<Rightarrow> Inr (c # cs)))"

text \<open>
  \<^verbatim>\<open>create_database_from_csv\<close> (utils/database.py). pandas and the file system are
  outside the repository and are parameters:
  \<^item> \<open>fs\<close> is the file system, a map from paths to file contents of any type \<open>'b\<close>;
  \<^item> \<open>parse\<close> is the CSV parser of \<^verbatim>\<open>pd.read_csv\<close>: the frame of a content, or the
    text of the error it raises;
  \<^item> \<open>to_sql_error\<close> tells whether \<^verbatim>\<open>df.to_sql\<close> refuses a frame (duplicate column
    labels, for one) and with which error text.
  \<^verbatim>\<open>sqlite3.connect(':memory:')\<close> opens a new, empty database, so the connection
  returned holds the one table written.
\<close>

definition create_database_from_csv ::
  "('b \<Rightarrow> pystr + 'v dataframe) \<Rightarrow> ('v dataframe \<Rightarrow> pystr \<Rightarrow> pystr option) \<Rightarrow>
   (pystr \<rightharpoonup> 'b) \<Rightarrow> pystr \<Rightarrow> pystr \<Rightarrow> py_exception + 'v conn" where
  "create_database_from_csv parse to_sql_error fs csv_path table_name =
     (case fs csv_path of
        None \<Rightarrow> Inl (FileNotFoundError csv_path)
      | Some content \<Rightarrow>
          (case parse content of
             Inl msg \<Rightarrow> Inl (LibraryError msg)
           | Inr df \<Rightarrow>
               (case clean_columns (columns df) of
                  Inl ex \<Rightarrow> Inl ex
                | Inr cols \<Rightarrow>
                    (let df' = df\<lparr>columns := cols\<rparr>
                     in case to_sql_error df' table_name of
                          Some msg \<Rightarrow> Inl (LibraryError msg)
                        | None \<Rightarrow> Inr (Map.empty(table_key table_name \<mapsto> df'))))))"

section \<open>Executing a query\<close>

text \<open>
  \<^verbatim>\<open>pd.read_sql_query(query, conn)\<close> is the SQL engine, a parameter \<open>rsq\<close>: from the
  state of the database and the query text it gives the state afterwards and either the
  result frame or \<^verbatim>\<open>str(e)\<close> of the exception raised. The state is threaded through
  every call, since the engine executes whatever statement the text holds.
\<close>

type_synonym 'v engine = "'v conn \<Rightarrow> pystr \<Rightarrow> 'v conn \<times> (pystr + 'v dataframe)"

text \<open>\<^verbatim>\<open>SELECT name FROM pragma_table_info('data')\<close>: the column names of table \<open>data\<close>,
  none when there is no such table.\<close>

definition pragma_table_info_names :: "'v conn \<Rightarrow> pystr list" where
  "pragma_table_info_names conn =
     (case conn (table_key (py ''data'')) of None \<Rightarrow> [] | Some t \<Rightarrow> columns t)"

definition dquote :: pystr where
  "dquote = [0x22]"

definition backtick :: pystr where
  "backtick = [0x60]"

text \<open>
  The loop of the second attempt. The result is \<open>None\<close> when the loop ends without a
  \<^verbatim>\<open>return\<close>; \<^verbatim>\<open>clean_column_name(col)\<close> stands outside the inner
  \<^verbatim>\<open>try\<close>, so an exception of it leaves the function.
\<close>

fun second_attempt ::
  "'v engine \<Rightarrow> 'v conn \<Rightarrow> pystr \<Rightarrow> pystr list \<Rightarrow> 'v conn \<times> (py_exception + 'v dataframe) option" where
  "second_attempt rsq conn query [] = (conn, None)"
| "second_attempt rsq conn query (col # cols) =
     (if py_in (py '' '') col then
        (case clean_column_name col of
           Inl ex \<Rightarrow> (conn, Some (Inl ex))
         | Inr clean_col \<Rightarrow>
             (case rsq conn (py_replace query (dquote @ col @ dquote) clean_col) of
                (conn', Inr df) \<Rightarrow> (conn', Some (Inr df))
              | (conn', Inl _) \<Rightarrow> second_attempt rsq conn' query cols))
      else second_attempt rsq conn query cols)"

text \<open>The loop of the third attempt.\<close>

fun third_attempt ::
  "'v engine \<Rightarrow> 'v conn \<Rightarrow> pystr \<Rightarrow> pystr list \<Rightarrow> 'v conn \<times> 'v dataframe option" where
  "third_attempt rsq conn query [] = (conn, None)"
| "third_attempt rsq conn query (col # cols) =
     (if py_in (py ''raw'') (py_lower col) \<and> py_in (py ''predict'') (py_lower col) then
        (case rsq conn (py_replace query (dquote @ py ''raw predicted'' @ dquote)
                          (dquote @ col @ dquote)) of
           (conn', Inr df) \<Rightarrow> (conn', Some df)
         | (conn', Inl _) \<Rightarrow> third_attempt rsq conn' query cols)
      else third_attempt rsq conn query cols)"

text \<open>
  The message of the last \<^verbatim>\<open>raise\<close>:
  \<^verbatim>\<open>f"Query error: {e}\n\nAvailable columns: {', '.join(actual_columns)}"\<close>.
\<close>

definition query_error_message :: "pystr \<Rightarrow> pystr list \<Rightarrow> pystr" where
  "query_error_message e actual_columns =
     py ''Query error: '' @ e @ [0x0A, 0x0A] @ py ''Available columns: ''
       @ py_join (py '', '') actual_columns"

text \<open>
  \<^verbatim>\<open>execute_query\<close> (utils/database.py). \<^verbatim>\<open>actual_columns\<close> is assigned only
  inside the branch of a missing column; when the error is of another kind the last
  \<^verbatim>\<open>raise\<close> reads the unassigned variable, and Python raises UnboundLocalError in
  place of the exception being built.
\<close>

definition execute_query ::
  "'v engine \<Rightarrow> 'v conn \<Rightarrow> pystr \<Rightarrow> 'v conn \<times> (py_exception + 'v dataframe)" where
  "execute_query rsq conn query =
     (case rsq conn query of
        (c1, Inr df) \<Rightarrow> (c1, Inr df)
      | (c1, Inl e) \<Rightarrow>
          (let error_str = py_lower e in
           if py_in (py ''no such column'') error_str then
             (let actual_columns = pragma_table_info_names c1 in
              case rsq c1 (py_replace query dquote backtick) of
                (c2, Inr df) \<Rightarrow> (c2, Inr df)
              | (c2, Inl _) \<Rightarrow>
                  (case second_attempt rsq c2 query actual_columns of
                     (c3, Some (Inr df)) \<Rightarrow> (c3, Inr df)
                   | (c3, Some (Inl ex)) \<Rightarrow> (c3, Inl ex)
                   | (c3, None) \<Rightarrow>
                       (case third_attempt rsq c3 query actual_columns of
                          (c4, Some df) \<Rightarrow> (c4, Inr df)
                        | (c4, None) \<Rightarrow>
                            (c4, Inl (Exception (query_error_message e actual_columns))))))
           else (c1, Inl (UnboundLocalError (py ''actual_columns'')))))"

text \<open>\<^verbatim>\<open>find_closest_column\<close> (utils/database.py): the first column equal to the
  name up to case, \<open>None\<close> when there is none.\<close>

definition find_closest_column :: "pystr \<Rightarrow> pystr list \<Rightarrow> pystr option" where
  "find_closest_column problem_col actual_columns =
     find (\<lambda>col. py_lower col = py_lower problem_col) actual_columns"

section \<open>The specification's wording\<close>

text \<open>
  The definitions of this section follow the words of the specification, not the code; the
  theorems compare them with the code.

  Section 4.1: replace each space with an underscore; replace every remaining character that
  is not alphanumeric or underscore with an underscore; if the first character is a digit,
  prepend a fixed literal prefix; lowercase the entire result.
\<close>

definition spec_sanitize :: "pystr \<Rightarrow> pystr" where
  "spec_sanitize raw =
     (let s = map (\<lambda>c. if c = 0x20 then 0x5F else c) raw;
          s = map (\<lambda>c. if py_isalnum c \<or> c = 0x5F then c else 0x5F) s
      in py_lower (if s \<noteq> [] \<and> py_isdigit (hd s) then py ''col_'' @ s else s))"

text \<open>
  Section 4.4: the three rewrite strategies, each giving the query texts it submits, in
  order. The second goes through the columns that contain a space, the third through the
  columns that contain both \<open>raw\<close> and \<open>predict\<close> whatever the case.
\<close>

definition quote_style_rewrites :: "pystr \<Rightarrow> pystr list" where
  "quote_style_rewrites query = [py_replace query dquote backtick]"

definition space_column_rewrites :: "pystr list \<Rightarrow> pystr \<Rightarrow> pystr list" where
  "space_column_rewrites actual_columns query =
     map (\<lambda>col. py_replace query (dquote @ col @ dquote) (spec_sanitize col))
       (filter (\<lambda>col. 0x20 \<in> set col) actual_columns)"

definition fuzzy_rewrites :: "pystr list \<Rightarrow> pystr \<Rightarrow> pystr list" where
  "fuzzy_rewrites actual_columns query =
     map (\<lambda>col. py_replace query (dquote @ py ''raw predicted'' @ dquote) (dquote @ col @ dquote))
       (filter (\<lambda>col. py_in (py ''raw'') (py_lower col) \<and> py_in (py ''predict'') (py_lower col))
          actual_columns)"

definition repair_rewrites :: "pystr list \<Rightarrow> pystr \<Rightarrow> pystr list" where
  "repair_rewrites actual_columns query =
     quote_style_rewrites query @ space_column_rewrites actual_columns query
       @ fuzzy_rewrites actual_columns query"

text \<open>
  Submitting a list of query texts in order and returning the first successful result: a
  text is submitted only when every text before it has failed.
\<close>

fun first_success :: "'v engine \<Rightarrow> 'v conn \<Rightarrow> pystr list \<Rightarrow> 'v conn \<times> 'v dataframe option" where
  "first_success rsq conn [] = (conn, None)"
| "first_success rsq conn (q # qs) =
     (case rsq conn q of
        (conn', Inr df) \<Rightarrow> (conn', Some df)
      | (conn', Inl _) \<Rightarrow> first_success rsq conn' qs)"

text \<open>
  Section 3, the sanitized column name: only lowercase ASCII letters, ASCII digits and the
  underscore (the regular expression \<^verbatim>\<open>^[a-z0-9_]+$\<close> without its \<^verbatim>\<open>+\<close>, which
  asks for a non-empty string).
\<close>

definition identifier_char :: "codepoint \<Rightarrow> bool" where
  "identifier_char c \<longleftrightarrow>
     (0x61 \<le> c \<and> c \<le> 0x7A) \<or> (0x30 \<le> c \<and> c \<le> 0x39) \<or> c = 0x5F"

definition matches_identifier :: "pystr \<Rightarrow> bool" where
  "matches_identifier s \<longleftrightarrow> s \<noteq> [] \<and> list_all identifier_char s"

definition ascii_digit :: "codepoint \<Rightarrow> bool" where
  "ascii_digit c \<longleftrightarrow> 0x30 \<le> c \<and> c \<le> 0x39"

section \<open>Engines and tables for the examples\<close>

text \<open>
  An engine that answers from a list of query texts and never changes the database; every
  other text fails with the error text \<open>other\<close>. It stands for SQLite on the handful of
  queries an example submits.
\<close>

definition answers_engine :: "(pystr \<times> 'v dataframe) list \<Rightarrow> pystr \<Rightarrow> 'v engine" where
  "answers_engine answers other conn query =
     (conn, case map_of answers query of Some df \<Rightarrow> Inr df | None \<Rightarrow> Inl other)"

text \<open>
  SQLite on the statement \<^verbatim>\<open>DROP TABLE data\<close>: \<^verbatim>\<open>pd.read_sql_query\<close> passes the
  text to \<^verbatim>\<open>cursor.execute\<close>, which removes the table; the statement gives no rows,
  so pandas fails afterwards, when it reads the cursor's description to build the frame
  (TypeError, \<^verbatim>\<open>'NoneType' object is not iterable\<close>). Every other text fails in this
  engine and leaves the database as it is.
\<close>

definition not_iterable_message :: pystr where
  "not_iterable_message = [0x27] @ py ''NoneType'' @ [0x27] @ py '' object is not iterable''"

definition drop_table_engine :: "'v engine" where
  "drop_table_engine conn query =
     (if query = py ''DROP TABLE data''
      then (conn(table_key (py ''data'') := None), Inl not_iterable_message)
      else (conn, Inl (py ''syntax error'')))"

definition scores :: "nat dataframe" where
  "scores =
     \<lparr>columns = [py ''first name'', py ''raw_predicted_score''],
      dtypes = [py ''TEXT'', py ''INTEGER''],
      rows = [[1, 70], [2, 85]]\<rparr>"

definition scores_conn :: "nat conn" where
  "scores_conn = Map.empty(table_key (py ''data'') \<mapsto> scores)"

definition score_column :: "nat dataframe" where
  "score_column = \<lparr>columns = [py ''raw_predicted_score''], dtypes = [py ''INTEGER''], rows = [[70], [85]]\<rparr>"

definition passengers_csv :: "nat dataframe" where
  "passengers_csv =
     \<lparr>columns = [py ''Passenger Class'', py ''Age''],
      dtypes = [py ''int64'', py ''int64''],
      rows = [[1, 22], [3, 38]]\<rparr>"

definition passengers :: "nat dataframe" where
  "passengers =
     \<lparr>columns = [py ''passenger_class'', py ''age''],
      dtypes = [py ''int64'', py ''int64''],
      rows = [[1, 22], [3, 38]]\<rparr>"

definition passenger_class_column :: "nat dataframe" where
  "passenger_class_column = \<lparr>columns = [py ''passenger_class''], dtypes = [py ''int64''], rows = [[1], [3]]\<rparr>"

definition select_raw_predicted :: pystr where
  "select_raw_predicted = py ''SELECT '' @ dquote @ py ''raw predicted'' @ dquote @ py '' FROM data''"

definition select_score :: pystr where
  "select_score = py ''SELECT '' @ dquote @ py ''raw_predicted_score'' @ dquote @ py '' FROM data''"

definition select_passenger_class_raw :: pystr where
  "select_passenger_class_raw =
     py ''SELECT '' @ dquote @ py ''Passenger Class'' @ dquote @ py '' FROM data''"

definition select_passenger_class :: pystr where
  "select_passenger_class = py ''SELECT passenger_class FROM data''"

definition passengers_conn :: "nat conn" where
  "passengers_conn = Map.empty(table_key (py ''data'') \<mapsto> passengers)"

text \<open>The table \<open>scores\<close> loaded under the name \<open>scores\<close> instead of \<open>data\<close>.\<close>

definition archive_conn :: "nat conn" where
  "archive_conn = Map.empty(table_key (py ''scores'') \<mapsto> scores)"

definition select_raw_predicted_scores :: pystr where
  "select_raw_predicted_scores =
     py ''SELECT '' @ dquote @ py ''raw predicted'' @ dquote @ py '' FROM scores''"

definition select_score_scores :: pystr where
  "select_score_scores =
     py ''SELECT '' @ dquote @ py ''raw_predicted_score'' @ dquote @ py '' FROM scores''"

section \<open>Facts about strings and the character tables\<close>

lemma py_simps:
  "py [] = []" "py (x # xs) = of_char x # py xs"
  by (simp_all add: py_def)

lemma replace_occurrences_single:
  "replace_occurrences [a] [b] s = map (\<lambda>c. if c = a then b else c) s"
  by (induction s) auto

lemma replace_spaces_map: "replace_spaces s = map (\<lambda>c. if c = 0x20 then 0x5F else c) s"
  by (simp add: replace_spaces_def py_replace_def py_def replace_occurrences_single)

lemma replace_special_map:
  "replace_special s = map (\<lambda>c. if py_isalnum c \<or> c = 0x5F then c else 0x5F) s"
  by (induction s) (simp_all add: replace_special_def py_def)

lemma py_in_single: "py_in [a] s \<longleftrightarrow> a \<in> set s"
  by (induction s) auto

lemma in_ranges_below:
  "list_all (\<lambda>(lo, hi). n \<le> lo) rs \<Longrightarrow> c < n \<Longrightarrow> \<not> in_ranges c rs"
  by (induction rs) auto

lemma alnum_ranges_split:
  "alnum_ranges = (0x30, 0x39) # (0x41, 0x5A) # (0x61, 0x7A) # drop 3 alnum_ranges"
  by (simp add: alnum_ranges_def)

lemma alnum_ranges_rest: "list_all (\<lambda>(lo, hi). 128 \<le> lo) (drop 3 alnum_ranges)"
  by (simp add: alnum_ranges_def)

lemma py_isalnum_ascii:
  assumes "c < 128"
  shows "py_isalnum c \<longleftrightarrow>
    (0x30 \<le> c \<and> c \<le> 0x39) \<or> (0x41 \<le> c \<and> c \<le> 0x5A) \<or> (0x61 \<le> c \<and> c \<le> 0x7A)"
proof -
  have "\<not> in_ranges c (drop 3 alnum_ranges)"
    using in_ranges_below [OF alnum_ranges_rest assms] .
  then show ?thesis
    unfolding py_isalnum_def by (subst alnum_ranges_split) simp
qed

lemma digit_ranges_split: "digit_ranges = (0x30, 0x39) # drop 1 digit_ranges"
  by (simp add: digit_ranges_def)

lemma digit_ranges_rest: "list_all (\<lambda>(lo, hi). 128 \<le> lo) (drop 1 digit_ranges)"
  by (simp add: digit_ranges_def)

lemma py_isdigit_ascii:
  assumes "c < 128"
  shows "py_isdigit c \<longleftrightarrow> 0x30 \<le> c \<and> c \<le> 0x39"
proof -
  have "\<not> in_ranges c (drop 1 digit_ranges)"
    using in_ranges_below [OF digit_ranges_rest assms] .
  then show ?thesis
    unfolding py_isdigit_def by (subst digit_ranges_split) simp
qed

lemma lookup_lower_below:
  "list_all (\<lambda>(lo, hi, step, target). n \<le> lo) es \<Longrightarrow> c < n \<Longrightarrow> lookup_lower c es = None"
  by (induction es) auto

lemma lowercase_table_split: "lowercase_table = (0x41, 0x5A, 1, 0x61) # drop 1 lowercase_table"
  by (simp add: lowercase_table_def)

lemma lowercase_table_rest:
  "list_all (\<lambda>(lo, hi, step, target). 128 \<le> lo) (drop 1 lowercase_table)"
  by (simp add: lowercase_table_def)

lemma lower_cp_ascii:
  assumes "c < 128"
  shows "lower_cp c = [if 0x41 \<le> c \<and> c \<le> 0x5A then c + 0x20 else c]"
proof -
  have "lookup_lower c (drop 1 lowercase_table) = None"
    using lookup_lower_below [OF lowercase_table_rest assms] .
  then show ?thesis
    using assms unfolding lower_cp_def by (subst lowercase_table_split) auto
qed

section \<open>Facts about the sanitizer\<close>

lemma lower_from_ascii:
  "\<forall>c\<in>set s. c < 128 \<Longrightarrow> lower_from left s = table_key s"
  by (induction s arbitrary: left) (auto simp: lower_cp_ascii table_key_def)

lemma py_lower_ascii: "\<forall>c\<in>set s. c < 128 \<Longrightarrow> py_lower s = table_key s"
  by (simp add: py_lower_def lower_from_ascii)

lemma lower_cp_nonempty: "lower_cp c \<noteq> []"
  by (simp add: lower_cp_def split: option.split)

lemma lower_from_nonempty: "s \<noteq> [] \<Longrightarrow> lower_from left s \<noteq> []"
  by (cases s) (auto simp: lower_cp_nonempty)

lemma length_substituted: "length (replace_special (replace_spaces name)) = length name"
  by (simp add: replace_special_map replace_spaces_map)

lemma clean_column_name_spec:
  "name \<noteq> [] \<Longrightarrow> clean_column_name name = Inr (spec_sanitize name)"
  by (cases name)
    (simp_all add: clean_column_name_def spec_sanitize_def replace_special_map replace_spaces_map Let_def)

lemma clean_column_name_empty: "clean_column_name [] = Inl IndexError"
  by (simp add: clean_column_name_def replace_special_map replace_spaces_map)

section \<open>Facts about the executor\<close>

lemma py_in_space: "py_in (py '' '') col \<longleftrightarrow> 0x20 \<in> set col"
  by (simp add: py_def py_in_single)

lemma has_space_nonempty: "0x20 \<in> set col \<Longrightarrow> col \<noteq> []"
  by auto

lemma first_success_append:
  "first_success rsq conn (qs @ qs') =
     (case first_success rsq conn qs of
        (conn', Some df) \<Rightarrow> (conn', Some df)
      | (conn', None) \<Rightarrow> first_success rsq conn' qs')"
  by (induction qs arbitrary: conn) (auto split: prod.splits sum.splits)

lemma second_attempt_first_success:
  "second_attempt rsq conn query cols =
     (case first_success rsq conn (space_column_rewrites cols query) of
        (conn', Some df) \<Rightarrow> (conn', Some (Inr df))
      | (conn', None) \<Rightarrow> (conn', None))"
proof (induction cols arbitrary: conn)
  case Nil
  show ?case by (simp add: space_column_rewrites_def)
next
  case (Cons col cols)
  show ?case
  proof (cases "0x20 \<in> set col")
    case True
    then have "clean_column_name col = Inr (spec_sanitize col)"
      by (intro clean_column_name_spec) auto
    with True Cons.IH show ?thesis
      by (auto simp: py_in_space space_column_rewrites_def split: prod.splits sum.splits)
  next
    case False
    with Cons.IH show ?thesis
      by (simp add: py_in_space space_column_rewrites_def)
  qed
qed

lemma third_attempt_first_success:
  "third_attempt rsq conn query cols = first_success rsq conn (fuzzy_rewrites cols query)"
  by (induction cols arbitrary: conn)
    (auto simp: fuzzy_rewrites_def split: prod.splits sum.splits)

lemma execute_query_repair:
  assumes "rsq conn query = (c1, Inl e)"
    and "py_in (py ''no such column'') (py_lower e)"
  shows "execute_query rsq conn query =
     (case first_success rsq c1 (repair_rewrites (pragma_table_info_names c1) query) of
        (c', Some df) \<Rightarrow> (c', Inr df)
      | (c', None) \<Rightarrow>
          (c', Inl (Exception (query_error_message e (pragma_table_info_names c1)))))"
  using assms
  by (auto simp: execute_query_def repair_rewrites_def quote_style_rewrites_def
      first_success_append second_attempt_first_success third_attempt_first_success
      split: prod.splits sum.splits option.splits)

lemma execute_query_other_error:
  assumes "rsq conn query = (c1, Inl e)"
    and "\<not> py_in (py ''no such column'') (py_lower e)"
  shows "execute_query rsq conn query = (c1, Inl (UnboundLocalError (py ''actual_columns'')))"
  using assms by (simp add: execute_query_def)

lemma execute_query_success:
  assumes "rsq conn query = (c1, Inr df)"
  shows "execute_query rsq conn query = (c1, Inr df)"
  using assms by (simp add: execute_query_def)

lemma py_in_prefix: "prefix sub s \<Longrightarrow> py_in sub s"
  by (cases s) auto

lemma py_in_append: "py_in sub (a @ sub @ b)"
  by (induction a) (auto intro: py_in_prefix)

section \<open>The sanitizer is total on non-empty names\<close>

text \<open>
  Claim C9. \<^verbatim>\<open>clean_column_name\<close> returns on every non-empty string: the two
  substitutions replace characters one for one, so the string indexed at 0 is as long as the
  name; the only exception the function raises is IndexError, and only the empty name raises
  it.
\<close>

theorem clean_column_name_total_on_nonempty:
  "length (replace_special (replace_spaces name)) = length name
   \<and> (name \<noteq> [] \<longrightarrow> (\<exists>cleaned. clean_column_name name = Inr cleaned))
   \<and> (\<forall>ex. clean_column_name name = Inl ex \<longrightarrow> name = [] \<and> ex = IndexError)
   \<and> clean_column_name [] = Inl IndexError"
proof (intro conjI allI impI)
  show "length (replace_special (replace_spaces name)) = length name"
    by (rule length_substituted)
  show "\<exists>cleaned. clean_column_name name = Inr cleaned" if "name \<noteq> []"
    using clean_column_name_spec [OF that] by blast
  show "name = []" if "clean_column_name name = Inl ex" for ex
    using that clean_column_name_spec [of name] by (cases "name = []") simp_all
  show "ex = IndexError" if "clean_column_name name = Inl ex" for ex
    using that clean_column_name_spec [of name] clean_column_name_empty
    by (cases "name = []") simp_all
  show "clean_column_name [] = Inl IndexError"
    by (rule clean_column_name_empty)
qed

lemma spec_sanitize_ascii_eval:
  "spec_sanitize (py ''Passenger Class'') = py ''passenger_class''"
  by (simp add: spec_sanitize_def py_def py_isalnum_ascii py_isdigit_ascii py_lower_ascii table_key_def)

theorem clean_column_name_total_on_nonempty_witness:
  "length (replace_special (replace_spaces (py ''Passenger Class''))) = 15
   \<and> clean_column_name (py ''Passenger Class'') = Inr (py ''passenger_class'')
   \<and> clean_column_name [] = Inl IndexError"
  using clean_column_name_total_on_nonempty [of "py ''Passenger Class''"]
    clean_column_name_spec [of "py ''Passenger Class''"]
  by (simp add: spec_sanitize_ascii_eval) (simp add: py_def)

section \<open>The order of the repair strategies\<close>

lemmas ascii_eval = py_def py_isalnum_ascii py_isdigit_ascii py_lower_ascii table_key_def
  dquote_def backtick_def py_replace_def

lemma pragma_table_info_names_Some:
  "conn (table_key (py ''data'')) = Some t \<Longrightarrow> pragma_table_info_names conn = columns t"
  by (simp add: pragma_table_info_names_def)

lemma pragma_table_info_names_None:
  "conn (table_key (py ''data'')) = None \<Longrightarrow> pragma_table_info_names conn = []"
  by (simp add: pragma_table_info_names_def)

text \<open>
  Claim C1, as amended. Let the relation be stored as the table \<open>data\<close>, with columns
  \<open>columns t\<close>. When the first execution fails with an error text that holds
  \<^verbatim>\<open>no such column\<close>, \<^verbatim>\<open>execute_query\<close> submits, in this order, the query with
  every double quote replaced by a backtick, then for each column of \<open>t\<close> with a space (in
  the stored order) the query with the double-quoted column replaced by its sanitized name,
  then for each column of \<open>t\<close> holding \<open>raw\<close> and \<open>predict\<close> the query with the
  double-quoted placeholder \<^verbatim>\<open>raw predicted\<close> replaced by the double-quoted column. It
  returns the first successful result; a text is submitted only when all before it failed,
  and when all fail the last exception is raised.
\<close>

theorem execute_query_repair_order:
  assumes "rsq conn query = (c1, Inl e)"
    and "py_in (py ''no such column'') (py_lower e)"
    and "c1 (table_key (py ''data'')) = Some t"
  shows "execute_query rsq conn query =
     (case first_success rsq c1
             (quote_style_rewrites query
                @ space_column_rewrites (columns t) query
                @ fuzzy_rewrites (columns t) query) of
        (c', Some df) \<Rightarrow> (c', Inr df)
      | (c', None) \<Rightarrow> (c', Inl (Exception (query_error_message e (columns t)))))"
  using assms execute_query_repair [of rsq conn query c1 e]
  by (simp add: repair_rewrites_def pragma_table_info_names_Some)

lemma scores_table: "scores_conn (table_key (py ''data'')) = Some scores"
  by (simp add: scores_conn_def)

lemma scores_columns: "columns scores = [py ''first name'', py ''raw_predicted_score'']"
  by (simp add: scores_def)

lemma raw_predicted_quote_style:
  "quote_style_rewrites select_raw_predicted
   = [py ''SELECT '' @ backtick @ py ''raw predicted'' @ backtick @ py '' FROM data'']"
  by (simp add: quote_style_rewrites_def select_raw_predicted_def ascii_eval)

lemma raw_predicted_space_column:
  "space_column_rewrites [py ''first name'', py ''raw_predicted_score''] select_raw_predicted
   = [select_raw_predicted]"
  by (simp add: space_column_rewrites_def spec_sanitize_def select_raw_predicted_def ascii_eval)

lemma raw_predicted_fuzzy:
  "fuzzy_rewrites [py ''first name'', py ''raw_predicted_score''] select_raw_predicted
   = [select_score]"
  by (simp add: fuzzy_rewrites_def select_raw_predicted_def select_score_def ascii_eval)

lemma no_such_column_text:
  "py_in (py ''no such column'') (py_lower (py ''no such column: raw predicted''))"
  by (simp add: ascii_eval)

lemma raw_predicted_queries_differ:
  "select_raw_predicted \<noteq> select_score"
  "py ''SELECT '' @ backtick @ py ''raw predicted'' @ backtick @ py '' FROM data'' \<noteq> select_score"
  by (simp_all add: select_raw_predicted_def select_score_def ascii_eval)

theorem execute_query_repair_order_witness:
  "execute_query (answers_engine [(select_score, score_column)] (py ''no such column: raw predicted''))
     scores_conn select_raw_predicted
   = (scores_conn, Inr score_column)"
  using execute_query_repair_order
    [of "answers_engine [(select_score, score_column)] (py ''no such column: raw predicted'')"
      scores_conn select_raw_predicted scores_conn "py ''no such column: raw predicted''" scores]
  by (simp add: answers_engine_def no_such_column_text scores_table scores_columns
      raw_predicted_quote_style raw_predicted_space_column raw_predicted_fuzzy
      raw_predicted_queries_differ)

text \<open>
  The claim as stated, for any relation, fails: \<^verbatim>\<open>execute_query\<close> reads the columns
  of the table \<open>data\<close>, whatever the name the relation was loaded under. With the relation
  \<open>scores\<close> stored as the table \<open>scores\<close>, the sequence of the claim over the relation's
  columns reaches the third strategy and returns its result, while the code submits the
  backtick rewrite only and raises.
\<close>

lemma archive_no_data_table: "archive_conn (table_key (py ''data'')) = None"
  by (simp add: archive_conn_def table_key_def py_def)

lemma archive_columns: "pragma_table_info_names archive_conn = []"
  by (simp add: pragma_table_info_names_def archive_no_data_table)

lemma archive_quote_style:
  "quote_style_rewrites select_raw_predicted_scores
   = [py ''SELECT '' @ backtick @ py ''raw predicted'' @ backtick @ py '' FROM scores'']"
  by (simp add: quote_style_rewrites_def select_raw_predicted_scores_def ascii_eval)

lemma archive_space_column:
  "space_column_rewrites [py ''first name'', py ''raw_predicted_score''] select_raw_predicted_scores
   = [select_raw_predicted_scores]"
  by (simp add: space_column_rewrites_def spec_sanitize_def select_raw_predicted_scores_def
      ascii_eval)

lemma archive_fuzzy:
  "fuzzy_rewrites [py ''first name'', py ''raw_predicted_score''] select_raw_predicted_scores
   = [select_score_scores]"
  by (simp add: fuzzy_rewrites_def select_raw_predicted_scores_def select_score_scores_def
      ascii_eval)

lemma archive_queries_differ:
  "select_raw_predicted_scores \<noteq> select_score_scores"
  "py ''SELECT '' @ backtick @ py ''raw predicted'' @ backtick @ py '' FROM scores''
     \<noteq> select_score_scores"
  by (simp_all add: select_raw_predicted_scores_def select_score_scores_def ascii_eval)

theorem repair_order_other_table_counterexample:
  "first_success
     (answers_engine [(select_score_scores, score_column)] (py ''no such column: raw predicted''))
     archive_conn
     (quote_style_rewrites select_raw_predicted_scores
        @ space_column_rewrites (columns scores) select_raw_predicted_scores
        @ fuzzy_rewrites (columns scores) select_raw_predicted_scores)
   = (archive_conn, Some score_column)
   \<and> execute_query
     (answers_engine [(select_score_scores, score_column)] (py ''no such column: raw predicted''))
     archive_conn select_raw_predicted_scores
   = (archive_conn, Inl (Exception (py ''Query error: no such column: raw predicted''
        @ [0x0A, 0x0A] @ py ''Available columns: '')))"
proof -
  let ?e = "py ''no such column: raw predicted''"
  let ?rsq = "answers_engine [(select_score_scores, score_column)] ?e :: nat engine"
  have first: "?rsq archive_conn select_raw_predicted_scores = (archive_conn, Inl ?e)"
    by (simp add: answers_engine_def archive_queries_differ)
  have "execute_query ?rsq archive_conn select_raw_predicted_scores =
     (archive_conn, Inl (Exception (query_error_message ?e [])))"
    using execute_query_repair [of ?rsq archive_conn select_raw_predicted_scores archive_conn ?e,
        OF first no_such_column_text]
    by (simp add: archive_columns repair_rewrites_def
        space_column_rewrites_def fuzzy_rewrites_def archive_quote_style answers_engine_def
        archive_queries_differ)
  moreover have "first_success ?rsq archive_conn
     (quote_style_rewrites select_raw_predicted_scores
        @ space_column_rewrites (columns scores) select_raw_predicted_scores
        @ fuzzy_rewrites (columns scores) select_raw_predicted_scores)
     = (archive_conn, Some score_column)"
    by (simp add: scores_columns archive_quote_style archive_space_column archive_fuzzy
        answers_engine_def archive_queries_differ)
  ultimately show ?thesis
    by (simp add: query_error_message_def py_def)
qed

section \<open>Errors other than a missing column\<close>

text \<open>
  Claim C3. When the error text does not hold \<^verbatim>\<open>no such column\<close>, no rewrite is
  submitted: the engine has run once. The exception that leaves \<^verbatim>\<open>execute_query\<close>
  is, however, the UnboundLocalError of the unassigned \<^verbatim>\<open>actual_columns\<close>, whatever the
  engine's error text \<open>e\<close> was; the text is not in it.
\<close>

theorem other_error_raises_unbound_local:
  assumes "rsq conn query = (c1, Inl e)"
    and "\<not> py_in (py ''no such column'') (py_lower e)"
  shows "execute_query rsq conn query = (c1, Inl (UnboundLocalError (py ''actual_columns'')))"
  using assms execute_query_other_error [of rsq conn query c1 e] by simp

lemma syntax_error_text:
  "\<not> py_in (py ''no such column'') (py_lower (py ''near SELEC: syntax error''))"
  by (simp add: ascii_eval)

theorem other_error_raises_unbound_local_witness:
  "execute_query (answers_engine [] (py ''near SELEC: syntax error'')) scores_conn (py ''SELEC 1'')
   = (scores_conn, Inl (UnboundLocalError (py ''actual_columns'')))"
  using other_error_raises_unbound_local
    [of "answers_engine [] (py ''near SELEC: syntax error'')" scores_conn "py ''SELEC 1''"
      scores_conn "py ''near SELEC: syntax error''"]
  by (simp add: answers_engine_def syntax_error_text)

section \<open>The failure after all repairs\<close>

text \<open>
  Claim C5, as amended. Let the relation be stored as the table \<open>data\<close>, with columns
  \<open>columns t\<close>. When the first execution fails on a missing column, the backtick rewrite
  fails and both loops end without a result, \<^verbatim>\<open>execute_query\<close> raises an exception
  whose message holds the engine's first error text \<open>e\<close> and all the column names of
  \<open>t\<close>, joined by commas.
\<close>

theorem repair_failure_message:
  assumes "rsq conn query = (c1, Inl e)"
    and "py_in (py ''no such column'') (py_lower e)"
    and "c1 (table_key (py ''data'')) = Some t"
    and "rsq c1 (py_replace query dquote backtick) = (c2, Inl e2)"
    and "second_attempt rsq c2 query (columns t) = (c3, None)"
    and "third_attempt rsq c3 query (columns t) = (c4, None)"
  shows "execute_query rsq conn query =
     (c4, Inl (Exception (py ''Query error: '' @ e @ [0x0A, 0x0A] @ py ''Available columns: ''
                 @ py_join (py '', '') (columns t))))"
  using assms
  by (simp add: execute_query_def query_error_message_def pragma_table_info_names_Some)

lemma answers_engine_fails: "answers_engine [] other conn query = (conn, Inl other)"
  by (simp add: answers_engine_def)

lemma second_attempt_all_fail:
  "second_attempt (answers_engine [] other) conn query cols = (conn, None)"
  by (simp add: second_attempt_first_success space_column_rewrites_def answers_engine_fails)
     (induction cols; simp add: answers_engine_fails)

lemma third_attempt_all_fail:
  "third_attempt (answers_engine [] other) conn query cols = (conn, None)"
  by (induction cols) (simp_all add: answers_engine_fails)

theorem repair_failure_message_witness:
  "execute_query (answers_engine [] (py ''no such column: raw predicted'')) scores_conn
     select_raw_predicted
   = (scores_conn, Inl (Exception (py ''Query error: no such column: raw predicted'' @ [0x0A, 0x0A]
        @ py ''Available columns: first name, raw_predicted_score'')))"
proof -
  let ?e = "py ''no such column: raw predicted''"
  let ?rsq = "answers_engine [] ?e :: nat engine"
  have "execute_query ?rsq scores_conn select_raw_predicted =
     (scores_conn, Inl (Exception (py ''Query error: '' @ ?e @ [0x0A, 0x0A] @ py ''Available columns: ''
                 @ py_join (py '', '') (columns scores))))"
    by (rule repair_failure_message [of ?rsq scores_conn select_raw_predicted scores_conn ?e
          scores scores_conn ?e scores_conn scores_conn])
      (simp_all only: answers_engine_fails no_such_column_text second_attempt_all_fail
        third_attempt_all_fail scores_table)
  then show ?thesis
    by (simp add: scores_columns py_def)
qed

text \<open>
  The claim as stated, for any relation, fails: with the two-column relation \<open>scores\<close>
  stored as the table \<open>scores\<close>, every repair fails and the message of the exception
  lists no column.
\<close>

theorem failure_message_other_table_counterexample:
  "archive_conn (table_key (py ''scores'')) = Some scores
   \<and> columns scores = [py ''first name'', py ''raw_predicted_score'']
   \<and> execute_query (answers_engine [] (py ''no such column: raw predicted'')) archive_conn
       select_raw_predicted_scores
     = (archive_conn, Inl (Exception (py ''Query error: no such column: raw predicted''
          @ [0x0A, 0x0A] @ py ''Available columns: '')))"
proof -
  let ?e = "py ''no such column: raw predicted''"
  let ?rsq = "answers_engine [] ?e :: nat engine"
  have first: "?rsq archive_conn select_raw_predicted_scores = (archive_conn, Inl ?e)"
    by (simp only: answers_engine_fails)
  have "execute_query ?rsq archive_conn select_raw_predicted_scores =
     (archive_conn, Inl (Exception (query_error_message ?e [])))"
    using execute_query_repair [of ?rsq archive_conn select_raw_predicted_scores archive_conn ?e,
        OF first no_such_column_text]
    by (simp add: archive_columns repair_rewrites_def
        space_column_rewrites_def fuzzy_rewrites_def quote_style_rewrites_def
        answers_engine_fails)
  then show ?thesis
    by (simp add: query_error_message_def py_def archive_conn_def scores_columns)
qed

section \<open>Facts about the loader\<close>

lemma lowercase_targets_above_space:
  "list_all (\<lambda>(lo, hi, step, target). 0x20 < target) lowercase_table"
  by (simp add: lowercase_table_def)

lemma lookup_lower_above:
  "list_all (\<lambda>(lo, hi, step, target). n < target) es \<Longrightarrow> lookup_lower c es = Some d \<Longrightarrow> n < d"
  by (induction es) (auto split: if_splits)

lemma lower_cp_no_space: "c \<noteq> 0x20 \<Longrightarrow> 0x20 \<notin> set (lower_cp c)"
  using lookup_lower_above [OF lowercase_targets_above_space, of c]
  by (auto simp: lower_cp_def split: option.splits)

lemma handle_capital_sigma_cases:
  "handle_capital_sigma left right = 0x3C2 \<or> handle_capital_sigma left right = 0x3C3"
  by (simp add: handle_capital_sigma_def split: list.splits)

lemma lower_from_no_space: "0x20 \<notin> set s \<Longrightarrow> 0x20 \<notin> set (lower_from left s)"
proof (induction s arbitrary: left)
  case Nil
  then show ?case by simp
next
  case (Cons c cs)
  have "handle_capital_sigma left cs \<noteq> 0x20"
    using handle_capital_sigma_cases [of left cs] by auto
  with Cons show ?case
    by (auto simp: lower_cp_no_space)
qed

lemma spec_sanitize_no_space: "0x20 \<notin> set (spec_sanitize raw)"
proof -
  let ?s = "map (\<lambda>c. if py_isalnum c \<or> c = 0x5F then c else 0x5F)
              (map (\<lambda>c. if c = 0x20 then 0x5F else c) raw)"
  have "0x20 \<notin> set ?s" by auto
  moreover have "0x20 \<notin> set (py ''col_'')" by (simp add: py_def)
  ultimately have "0x20 \<notin> set (if ?s \<noteq> [] \<and> py_isdigit (hd ?s) then py ''col_'' @ ?s else ?s)"
    by (simp del: map_map)
  then show ?thesis
    unfolding spec_sanitize_def Let_def py_lower_def by (rule lower_from_no_space)
qed

lemma clean_columns_spec:
  "clean_columns cols = Inr cs \<Longrightarrow> cs = map spec_sanitize cols \<and> [] \<notin> set cols"
proof (induction cols arbitrary: cs)
  case Nil
  then show ?case by simp
next
  case (Cons col cols)
  then show ?case
    using clean_column_name_spec [of col] clean_column_name_empty
    by (cases "col = []") (auto split: sum.splits)
qed

lemma clean_columns_nonempty:
  "[] \<notin> set cols \<Longrightarrow> clean_columns cols = Inr (map spec_sanitize cols)"
  by (induction cols) (auto simp: clean_column_name_spec)

lemma create_database_from_csv_Inr:
  assumes "create_database_from_csv parse to_sql_error fs csv_path table_name = Inr conn"
  shows "\<exists>content df. fs csv_path = Some content \<and> parse content = Inr df
           \<and> [] \<notin> set (columns df)
           \<and> conn = Map.empty(table_key table_name \<mapsto> df\<lparr>columns := map spec_sanitize (columns df)\<rparr>)"
  using assms
  by (auto simp: create_database_from_csv_def Let_def dest!: clean_columns_spec
      split: option.splits sum.splits)

section \<open>Loaded columns hold no space\<close>

lemma second_attempt_no_space:
  "\<forall>col\<in>set cols. 0x20 \<notin> set col \<Longrightarrow> second_attempt rsq conn query cols = (conn, None)"
  by (induction cols) (simp_all add: py_in_space)

lemma space_column_rewrites_no_space:
  "\<forall>col\<in>set cols. 0x20 \<notin> set col \<Longrightarrow> space_column_rewrites cols query = []"
  by (simp add: space_column_rewrites_def filter_empty_conv)

text \<open>
  Claim C8. A connection returned by \<^verbatim>\<open>create_database_from_csv\<close> holds one table, and
  every column name of it is what \<^verbatim>\<open>clean_column_name\<close> returned for a label of the
  file, with no space in it. So the loop of the second attempt, which looks only at column
  names with a space, submits nothing and ends without a result, over the columns of that
  table and over the columns \<^verbatim>\<open>execute_query\<close> reads (those, or none when the table is
  not named \<open>data\<close>).
\<close>

theorem loaded_columns_have_no_space:
  assumes "create_database_from_csv parse to_sql_error fs csv_path table_name = Inr conn"
  shows "\<exists>t. conn = Map.empty(table_key table_name \<mapsto> t)
           \<and> (\<forall>col\<in>set (columns t). 0x20 \<notin> set col \<and> (\<exists>raw. clean_column_name raw = Inr col))
           \<and> (pragma_table_info_names conn = columns t \<or> pragma_table_info_names conn = [])
           \<and> second_attempt rsq c query (columns t) = (c, None)
           \<and> second_attempt rsq c query (pragma_table_info_names conn) = (c, None)"
proof -
  from create_database_from_csv_Inr [OF assms] obtain content df
    where df: "parse content = Inr df" "[] \<notin> set (columns df)"
      and conn: "conn = Map.empty(table_key table_name \<mapsto> df\<lparr>columns := map spec_sanitize (columns df)\<rparr>)"
    by blast
  let ?t = "df\<lparr>columns := map spec_sanitize (columns df)\<rparr>"
  have cols: "\<forall>col\<in>set (columns ?t). 0x20 \<notin> set col \<and> (\<exists>raw. clean_column_name raw = Inr col)"
  proof
    fix col assume "col \<in> set (columns ?t)"
    then obtain raw where raw: "raw \<in> set (columns df)" "col = spec_sanitize raw" by auto
    with df(2) have "raw \<noteq> []" by auto
    then have "clean_column_name raw = Inr col"
      using raw(2) by (simp add: clean_column_name_spec)
    moreover have "0x20 \<notin> set col"
      using raw(2) spec_sanitize_no_space by simp
    ultimately show "0x20 \<notin> set col \<and> (\<exists>raw. clean_column_name raw = Inr col)" by blast
  qed
  have names: "pragma_table_info_names conn = columns ?t \<or> pragma_table_info_names conn = []"
    by (simp add: conn pragma_table_info_names_def)
  have loop: "second_attempt rsq c query (columns ?t) = (c, None)"
    using cols by (intro second_attempt_no_space) blast
  have loop': "second_attempt rsq c query (pragma_table_info_names conn) = (c, None)"
    using names loop by auto
  show ?thesis
  proof (intro exI [of _ ?t] conjI)
    show "conn = Map.empty(table_key table_name \<mapsto> ?t)" by (rule conn)
    show "\<forall>col\<in>set (columns ?t). 0x20 \<notin> set col \<and> (\<exists>raw. clean_column_name raw = Inr col)"
      by (rule cols)
    show "pragma_table_info_names conn = columns ?t \<or> pragma_table_info_names conn = []"
      by (rule names)
    show "second_attempt rsq c query (columns ?t) = (c, None)" by (rule loop)
    show "second_attempt rsq c query (pragma_table_info_names conn) = (c, None)" by (rule loop')
  qed
qed

lemma passengers_csv_columns: "columns passengers_csv = [py ''Passenger Class'', py ''Age'']"
  by (simp add: passengers_csv_def)

lemma sanitize_passenger_class: "spec_sanitize (py ''Passenger Class'') = py ''passenger_class''"
  by (simp add: spec_sanitize_def ascii_eval)

lemma sanitize_age: "spec_sanitize (py ''Age'') = py ''age''"
  by (simp add: spec_sanitize_def ascii_eval)

lemma clean_passenger_columns:
  "clean_columns [py ''Passenger Class'', py ''Age''] = Inr [py ''passenger_class'', py ''age'']"
proof -
  have "py ''Passenger Class'' \<noteq> []" "py ''Age'' \<noteq> []"
    by (simp_all add: py_def)
  then show ?thesis
    by (simp add: clean_column_name_spec sanitize_passenger_class sanitize_age)
qed

lemma create_database_from_csv_success:
  assumes "fs csv_path = Some content"
    and "parse content = Inr df"
    and "clean_columns (columns df) = Inr cols"
    and "to_sql_error (df\<lparr>columns := cols\<rparr>) table_name = None"
  shows "create_database_from_csv parse to_sql_error fs csv_path table_name
     = Inr (Map.empty(table_key table_name \<mapsto> df\<lparr>columns := cols\<rparr>))"
  using assms by (simp add: create_database_from_csv_def)

lemma load_passengers:
  "create_database_from_csv (\<lambda>content. Inr passengers_csv) (\<lambda>df name. None)
     (Map.empty(py ''titanic.csv'' \<mapsto> ())) (py ''titanic.csv'') (py ''data'')
   = Inr passengers_conn"
proof -
  have "passengers_csv\<lparr>columns := [py ''passenger_class'', py ''age'']\<rparr> = passengers"
    by (simp add: passengers_csv_def passengers_def)
  moreover have "clean_columns (columns passengers_csv) = Inr [py ''passenger_class'', py ''age'']"
    by (simp only: passengers_csv_columns clean_passenger_columns)
  ultimately show ?thesis
    using create_database_from_csv_success
      [of "Map.empty(py ''titanic.csv'' \<mapsto> ())" "py ''titanic.csv''" "()"
        "\<lambda>content. Inr passengers_csv" passengers_csv "[py ''passenger_class'', py ''age'']"
        "\<lambda>df name. None" "py ''data''"]
    by (simp add: passengers_conn_def)
qed

lemma passengers_table: "passengers_conn (table_key (py ''data'')) = Some passengers"
  by (simp add: passengers_conn_def)

lemma passengers_columns: "columns passengers = [py ''passenger_class'', py ''age'']"
  by (simp add: passengers_def)

theorem loaded_columns_have_no_space_witness:
  "(\<exists>t. passengers_conn = Map.empty(table_key (py ''data'') \<mapsto> t)
        \<and> second_attempt (answers_engine [] (py ''no such column'')) passengers_conn
              select_passenger_class_raw (columns t) = (passengers_conn, None))
   \<and> columns passengers = [py ''passenger_class'', py ''age'']"
  using loaded_columns_have_no_space [OF load_passengers,
      of "answers_engine [] (py ''no such column'')" passengers_conn select_passenger_class_raw]
    passengers_columns
  by blast

section \<open>Loading the same file twice\<close>

text \<open>
  Claim C7. Two loads of the same CSV content end the same way, whatever the path and the
  rest of the file system at each load. When they succeed, the connection holds one table:
  its column names are the labels of the file passed through the sanitizer, in order (the
  mapping from raw to sanitized names), and its types and rows are those of the file.
\<close>

theorem load_depends_on_content_only:
  assumes "fs1 path1 = Some content"
    and "fs2 path2 = Some content"
  shows "create_database_from_csv parse to_sql_error fs1 path1 table_name
           = create_database_from_csv parse to_sql_error fs2 path2 table_name
         \<and> (\<forall>conn. create_database_from_csv parse to_sql_error fs1 path1 table_name = Inr conn \<longrightarrow>
               (\<exists>df. parse content = Inr df
                  \<and> conn = Map.empty(table_key table_name \<mapsto>
                       \<lparr>columns = map spec_sanitize (columns df), dtypes = dtypes df, rows = rows df\<rparr>)))"
proof (intro conjI allI impI)
  show "create_database_from_csv parse to_sql_error fs1 path1 table_name
          = create_database_from_csv parse to_sql_error fs2 path2 table_name"
    using assms by (simp add: create_database_from_csv_def)
next
  fix conn
  assume "create_database_from_csv parse to_sql_error fs1 path1 table_name = Inr conn"
  from create_database_from_csv_Inr [OF this] assms(1) obtain df
    where "parse content = Inr df"
      and "conn = Map.empty(table_key table_name \<mapsto> df\<lparr>columns := map spec_sanitize (columns df)\<rparr>)"
    by auto
  moreover have "df\<lparr>columns := map spec_sanitize (columns df)\<rparr>
      = \<lparr>columns = map spec_sanitize (columns df), dtypes = dtypes df, rows = rows df\<rparr>"
    by simp
  ultimately show "\<exists>df. parse content = Inr df
      \<and> conn = Map.empty(table_key table_name \<mapsto>
           \<lparr>columns = map spec_sanitize (columns df), dtypes = dtypes df, rows = rows df\<rparr>)"
    by auto
qed


lemma load_passengers_upload:
  "(Map.empty(py ''upload.csv'' \<mapsto> ())) (py ''upload.csv'') = Some ()"
  "(Map.empty(py ''titanic.csv'' \<mapsto> ())) (py ''titanic.csv'') = Some ()"
  by simp_all

theorem load_depends_on_content_only_witness:
  "create_database_from_csv (\<lambda>content. Inr passengers_csv) (\<lambda>df name. None)
     (Map.empty(py ''titanic.csv'' \<mapsto> ())) (py ''titanic.csv'') (py ''data'') = Inr passengers_conn
   \<and> create_database_from_csv (\<lambda>content. Inr passengers_csv) (\<lambda>df name. None)
     (Map.empty(py ''upload.csv'' \<mapsto> ())) (py ''upload.csv'') (py ''data'') = Inr passengers_conn"
  using load_depends_on_content_only
    [of "Map.empty(py ''titanic.csv'' \<mapsto> ())" "py ''titanic.csv''" "()"
      "Map.empty(py ''upload.csv'' \<mapsto> ())" "py ''upload.csv''"
      "\<lambda>content. Inr passengers_csv" "\<lambda>df name. None" "py ''data''",
      OF load_passengers_upload(2) load_passengers_upload(1)]
    load_passengers
  by simp

section \<open>What the executor does to the database\<close>

lemma first_success_read_only:
  "\<forall>q\<in>set qs. fst (rsq conn q) = conn \<Longrightarrow> fst (first_success rsq conn qs) = conn"
proof (induction qs)
  case Nil
  show ?case by simp
next
  case (Cons q qs)
  from Cons.prems have "fst (rsq conn q) = conn" by simp
  with Cons show ?case
    by (cases "rsq conn q") (auto split: sum.splits)
qed

text \<open>
  Claim C6, as amended. \<^verbatim>\<open>execute_query\<close> writes nothing of its own: it changes the
  database only through the engine's executions of the query and of its rewrites. When
  those executions leave the database as it is, as read queries do, the database after the
  call is the database before it, with the same column names, types and rows, whether the
  call returns or raises.
\<close>

theorem read_only_executions_keep_database:
  assumes "fst (rsq conn query) = conn"
    and "\<forall>q\<in>set (quote_style_rewrites query
                     @ space_column_rewrites (pragma_table_info_names conn) query
                     @ fuzzy_rewrites (pragma_table_info_names conn) query).
           fst (rsq conn q) = conn"
  shows "fst (execute_query rsq conn query) = conn"
proof -
  obtain c1 r where first: "rsq conn query = (c1, r)" by (cases "rsq conn query")
  with assms(1) have c1: "c1 = conn" by simp
  show ?thesis
  proof (cases r)
    case (Inr df)
    with first c1 show ?thesis by (simp add: execute_query_success)
  next
    case (Inl e)
    show ?thesis
    proof (cases "py_in (py ''no such column'') (py_lower e)")
      case True
      have "fst (first_success rsq conn (repair_rewrites (pragma_table_info_names conn) query)) = conn"
        using assms(2) unfolding repair_rewrites_def by (rule first_success_read_only)
      then show ?thesis
        using first Inl True c1 execute_query_repair [of rsq conn query c1 e]
        by (auto split: prod.splits option.splits)
    next
      case False
      with first Inl c1 show ?thesis
        using execute_query_other_error [of rsq conn query c1 e] by simp
    qed
  qed
qed

theorem read_only_executions_keep_database_witness:
  "fst (execute_query (answers_engine [] (py ''no such column: raw predicted'')) scores_conn
          select_raw_predicted) = scores_conn"
  using read_only_executions_keep_database
    [of "answers_engine [] (py ''no such column: raw predicted'')" scores_conn select_raw_predicted]
  by (simp add: answers_engine_def)

text \<open>
  The claim as stated, for every query, fails: the query text is executed as it is, so a
  statement that writes is carried out. After \<^verbatim>\<open>DROP TABLE data\<close> the table is gone.
\<close>

lemma drop_table_text:
  "\<not> py_in (py ''no such column'') (py_lower not_iterable_message)"
  by (simp add: not_iterable_message_def ascii_eval)

theorem drop_table_counterexample:
  "scores_conn (table_key (py ''data'')) = Some scores
   \<and> fst (execute_query drop_table_engine scores_conn (py ''DROP TABLE data''))
        (table_key (py ''data'')) = None"
proof -
  have "drop_table_engine scores_conn (py ''DROP TABLE data'')
      = (scores_conn(table_key (py ''data'') := None), Inl not_iterable_message)"
    by (simp add: drop_table_engine_def)
  from execute_query_other_error
    [of drop_table_engine scores_conn "py ''DROP TABLE data''", OF this drop_table_text]
  show ?thesis by (simp add: scores_table)
qed

section \<open>A query that names the raw header\<close>

lemma passengers_queries_differ:
  "select_passenger_class_raw \<noteq> select_passenger_class"
  "py_replace select_passenger_class_raw dquote backtick \<noteq> select_passenger_class"
  by (simp_all add: select_passenger_class_raw_def select_passenger_class_def ascii_eval)

lemma passenger_class_text:
  "py_in (py ''no such column'') (py_lower (py ''no such column: Passenger Class''))"
  by (simp add: ascii_eval)

lemma passengers_fuzzy: "fuzzy_rewrites [py ''passenger_class'', py ''age''] query = []"
  by (simp add: fuzzy_rewrites_def ascii_eval)

lemma passengers_space: "space_column_rewrites [py ''passenger_class'', py ''age''] query = []"
  by (simp add: space_column_rewrites_def py_def)

text \<open>
  Claim C4. The file has the header \<^verbatim>\<open>Passenger Class\<close>, so the table loaded from it
  has the column \<open>passenger_class\<close>. The engine of the example answers
  \<^verbatim>\<open>SELECT passenger_class FROM data\<close> and reports a missing column for every other
  text. The query with the raw header in double quotes is not repaired: the second attempt
  goes through the stored names, none of which has a space, and \<^verbatim>\<open>execute_query\<close>
  raises the last exception where the query over \<open>passenger_class\<close> returns the column.
\<close>

theorem raw_header_query_is_not_repaired:
  "create_database_from_csv (\<lambda>content. Inr passengers_csv) (\<lambda>df name. None)
     (Map.empty(py ''titanic.csv'' \<mapsto> ())) (py ''titanic.csv'') (py ''data'') = Inr passengers_conn
   \<and> execute_query
       (answers_engine [(select_passenger_class, passenger_class_column)]
          (py ''no such column: Passenger Class''))
       passengers_conn select_passenger_class
     = (passengers_conn, Inr passenger_class_column)
   \<and> execute_query
       (answers_engine [(select_passenger_class, passenger_class_column)]
          (py ''no such column: Passenger Class''))
       passengers_conn select_passenger_class_raw
     = (passengers_conn, Inl (Exception (py ''Query error: no such column: Passenger Class''
          @ [0x0A, 0x0A] @ py ''Available columns: passenger_class, age'')))"
proof -
  let ?e = "py ''no such column: Passenger Class''"
  let ?rsq = "answers_engine [(select_passenger_class, passenger_class_column)] ?e :: nat engine"
  have ok: "execute_query ?rsq passengers_conn select_passenger_class
      = (passengers_conn, Inr passenger_class_column)"
    by (rule execute_query_success) (simp add: answers_engine_def)
  have first: "?rsq passengers_conn select_passenger_class_raw = (passengers_conn, Inl ?e)"
    by (simp add: answers_engine_def passengers_queries_differ)
  have cols: "pragma_table_info_names passengers_conn = [py ''passenger_class'', py ''age'']"
    by (simp add: pragma_table_info_names_def passengers_table passengers_columns)
  have "execute_query ?rsq passengers_conn select_passenger_class_raw
      = (passengers_conn, Inl (Exception (query_error_message ?e [py ''passenger_class'', py ''age''])))"
    using execute_query_repair [of ?rsq passengers_conn select_passenger_class_raw passengers_conn ?e,
        OF first passenger_class_text]
    by (simp add: cols repair_rewrites_def quote_style_rewrites_def passengers_fuzzy
        passengers_space answers_engine_def passengers_queries_differ)
  then have "execute_query ?rsq passengers_conn select_passenger_class_raw
     = (passengers_conn, Inl (Exception (py ''Query error: no such column: Passenger Class''
          @ [0x0A, 0x0A] @ py ''Available columns: passenger_class, age'')))"
    by (simp add: query_error_message_def py_def)
  with ok load_passengers show ?thesis by blast
qed

theorem raw_header_query_is_not_repaired_witness:
  "execute_query
       (answers_engine [(select_passenger_class, passenger_class_column)]
          (py ''no such column: Passenger Class''))
       passengers_conn select_passenger_class_raw
   \<noteq> execute_query
       (answers_engine [(select_passenger_class, passenger_class_column)]
          (py ''no such column: Passenger Class''))
       passengers_conn select_passenger_class"
  using raw_header_query_is_not_repaired by simp

section \<open>Facts about lowercase and digits\<close>

lemma in_ranges_iff: "in_ranges d rs \<longleftrightarrow> (\<exists>(a, b)\<in>set rs. a \<le> d \<and> d \<le> b)"
  by (induction rs) auto

lemma lookup_lower_not_in_ranges:
  "list_all (\<lambda>(lo, hi, step, target). list_all (\<lambda>(a, b). target + (hi - lo) < a \<or> b < target) rs) es
   \<Longrightarrow> lookup_lower c es = Some d \<Longrightarrow> \<not> in_ranges d rs"
proof (induction es)
  case Nil
  then show ?case by simp
next
  case (Cons entry es)
  obtain lo hi step target where entry: "entry = (lo, hi, step, target)"
    by (cases entry)
  show ?case
  proof (cases "lo \<le> c \<and> c \<le> hi \<and> (c - lo) mod step = 0")
    case True
    with Cons.prems(2) entry have d: "d = target + (c - lo)" by simp
    from Cons.prems(1) entry
    have "\<forall>(a, b)\<in>set rs. target + (hi - lo) < a \<or> b < target"
      by (simp add: list_all_iff)
    with d True show ?thesis
      by (fastforce simp: in_ranges_iff)
  next
    case False
    with Cons.prems(2) entry have "lookup_lower c es = Some d" by auto
    with Cons.IH Cons.prems(1) show ?thesis by simp
  qed
qed

lemma lowercase_targets_no_digit:
  "list_all (\<lambda>(lo, hi, step, target).
      list_all (\<lambda>(a, b). target + (hi - lo) < a \<or> b < target) digit_ranges) lowercase_table"
  unfolding lowercase_table_def digit_ranges_def by simp

lemma lower_cp_hd_not_digit: "\<not> py_isdigit c \<Longrightarrow> \<not> py_isdigit (hd (lower_cp c))"
proof (cases "c = 0x130")
  case True
  then show ?thesis by (simp add: lower_cp_def py_isdigit_ascii)
next
  case False
  assume c: "\<not> py_isdigit c"
  show ?thesis
  proof (cases "lookup_lower c lowercase_table")
    case None
    with False c show ?thesis by (simp add: lower_cp_def)
  next
    case (Some d)
    from lookup_lower_not_in_ranges [OF lowercase_targets_no_digit Some]
    have "\<not> py_isdigit d" by (simp add: py_isdigit_def)
    with False Some show ?thesis by (simp add: lower_cp_def)
  qed
qed

lemma sigma_not_digit: "\<not> py_isdigit 0x3C2" "\<not> py_isdigit 0x3C3" "\<not> py_isdigit 0x3A3"
  by (simp_all add: py_isdigit_def digit_ranges_def)

section \<open>The shape of a sanitized name\<close>

lemma lower_from_hd_not_digit:
  "s \<noteq> [] \<Longrightarrow> \<not> py_isdigit (hd s) \<Longrightarrow> \<not> py_isdigit (hd (lower_from left s))"
proof (cases s)
  case Nil
  assume "s \<noteq> []"
  with Nil show ?thesis by simp
next
  case (Cons c cs)
  assume "\<not> py_isdigit (hd s)"
  with Cons have c: "\<not> py_isdigit c" by simp
  show ?thesis
  proof (cases "c = 0x3A3")
    case True
    with Cons show ?thesis
      using handle_capital_sigma_cases [of left cs] sigma_not_digit by auto
  next
    case False
    with Cons lower_cp_hd_not_digit [OF c] lower_cp_nonempty [of c] show ?thesis
      by (cases "lower_cp c") auto
  qed
qed

lemma col_prefix_lower: "py_lower (py ''col_'' @ s) = py ''col_'' @ lower_from (rev (py ''col_'')) s"
  by (simp add: py_lower_def py_def lower_cp_ascii)

lemma spec_sanitize_shape:
  assumes "name \<noteq> []"
  shows "spec_sanitize name \<noteq> []"
    and "\<not> py_isdigit (hd (spec_sanitize name))"
    and "py_isdigit (hd (replace_special (replace_spaces name)))
           \<Longrightarrow> prefix (py ''col_'') (spec_sanitize name)"
proof -
  let ?s = "replace_special (replace_spaces name)"
  have s: "?s \<noteq> []"
    using assms by (simp add: replace_special_map replace_spaces_map)
  have eq: "spec_sanitize name = py_lower (if py_isdigit (hd ?s) then py ''col_'' @ ?s else ?s)"
    using s by (simp add: spec_sanitize_def replace_special_map replace_spaces_map Let_def)
  show "spec_sanitize name \<noteq> []"
    using s by (simp add: eq py_lower_def lower_from_nonempty)
  show "\<not> py_isdigit (hd (spec_sanitize name))"
  proof (cases "py_isdigit (hd ?s)")
    case True
    then show ?thesis by (simp add: eq col_prefix_lower) (simp add: py_def py_isdigit_ascii)
  next
    case False
    with s show ?thesis by (simp add: eq py_lower_def lower_from_hd_not_digit)
  qed
  show "prefix (py ''col_'') (spec_sanitize name)" if "py_isdigit (hd ?s)"
    using that by (simp add: eq col_prefix_lower)
qed


lemma table_key_identifier:
  "c < 128 \<Longrightarrow> py_isalnum c \<or> c = 0x5F \<Longrightarrow>
   identifier_char (if 0x41 \<le> c \<and> c \<le> 0x5A then c + 0x20 else c)"
  by (auto simp: identifier_char_def py_isalnum_ascii)

lemma spec_sanitize_identifier:
  assumes "name \<noteq> []" and "\<forall>c\<in>set name. py_isalnum c \<longrightarrow> c < 128"
  shows "matches_identifier (spec_sanitize name)"
proof -
  let ?s = "replace_special (replace_spaces name)"
  have s: "?s \<noteq> []"
    using assms(1) by (simp add: replace_special_map replace_spaces_map)
  have chars: "\<forall>c\<in>set ?s. c < 128 \<and> (py_isalnum c \<or> c = 0x5F)"
    using assms(2) by (auto simp: replace_special_map replace_spaces_map)
  let ?u = "if py_isdigit (hd ?s) then py ''col_'' @ ?s else ?s"
  have eq: "spec_sanitize name = py_lower ?u"
    using s by (simp add: spec_sanitize_def replace_special_map replace_spaces_map Let_def)
  have u: "\<forall>c\<in>set ?u. c < 128 \<and> (py_isalnum c \<or> c = 0x5F)"
    using chars by (auto simp: py_def py_isalnum_ascii)
  then have "py_lower ?u = table_key ?u"
    by (intro py_lower_ascii) blast
  moreover have "list_all identifier_char (table_key ?u)"
    unfolding list_all_iff
  proof
    fix d assume "d \<in> set (table_key ?u)"
    then obtain c where c: "c \<in> set ?u" and d: "d = (if 0x41 \<le> c \<and> c \<le> 0x5A then c + 0x20 else c)"
      unfolding table_key_def by auto
    from u c have "c < 128" "py_isalnum c \<or> c = 0x5F" by blast+
    then show "identifier_char d"
      unfolding d by (rule table_key_identifier)
  qed
  moreover have "table_key ?u \<noteq> []"
    using s by (simp add: table_key_def)
  ultimately show ?thesis
    by (simp add: eq matches_identifier_def)
qed

text \<open>
  Claim C2, as amended. For every non-empty raw column name \<^verbatim>\<open>clean_column_name\<close>
  returns a non-empty string that does not start with a digit (neither an ASCII digit nor any
  character of \<^verbatim>\<open>str.isdigit\<close>), and that starts with \<open>col_\<close> when the name
  after the two substitutions starts with a digit. When every alphanumeric character of the
  name is ASCII, the result holds only lowercase ASCII letters, ASCII digits and underscores.
\<close>

theorem sanitized_name_shape:
  assumes "name \<noteq> []"
  shows "\<exists>out. clean_column_name name = Inr out \<and> out \<noteq> []
           \<and> \<not> py_isdigit (hd out) \<and> \<not> ascii_digit (hd out)
           \<and> (py_isdigit (hd (replace_special (replace_spaces name))) \<longrightarrow> prefix (py ''col_'') out)
           \<and> ((\<forall>c\<in>set name. py_isalnum c \<longrightarrow> c < 128) \<longrightarrow> matches_identifier out)"
proof -
  have "\<not> ascii_digit (hd (spec_sanitize name))"
    using spec_sanitize_shape(2) [OF assms]
    by (auto simp: ascii_digit_def py_isdigit_ascii)
  with clean_column_name_spec [OF assms] spec_sanitize_shape [OF assms]
    spec_sanitize_identifier [OF assms]
  show ?thesis by blast
qed


lemma sanitize_first_class: "spec_sanitize (py ''1st Class'') = py ''col_1st_class''"
  by (simp add: spec_sanitize_def ascii_eval)

theorem sanitized_name_shape_witness:
  "clean_column_name (py ''1st Class'') = Inr (py ''col_1st_class'')
   \<and> matches_identifier (py ''col_1st_class'')
   \<and> prefix (py ''col_'') (py ''col_1st_class'')
   \<and> \<not> ascii_digit (hd (py ''col_1st_class''))"
proof -
  have name: "py ''1st Class'' \<noteq> []"
    by (simp add: py_def)
  have ascii: "\<forall>c\<in>set (py ''1st Class''). py_isalnum c \<longrightarrow> c < 128"
    by (simp add: py_def)
  have digit: "py_isdigit (hd (replace_special (replace_spaces (py ''1st Class''))))"
    by (simp add: replace_special_map replace_spaces_map py_def py_isdigit_ascii py_isalnum_ascii)
  have out: "clean_column_name (py ''1st Class'') = Inr (py ''col_1st_class'')"
    using clean_column_name_spec [OF name] by (simp add: sanitize_first_class)
  from sanitized_name_shape [OF name] out ascii digit show ?thesis
    by auto
qed

text \<open>
  The claim as stated, for all raw names, fails twice: \<^verbatim>\<open>str.isalnum\<close> accepts letters
  outside ASCII, which the sanitizer keeps (here U+00E9, e with acute accent), and the empty
  name raises IndexError.
\<close>

lemma e_acute:
  "py_isalnum 0xE9" "\<not> py_isdigit 0xE9" "lower_cp 0xE9 = [0xE9]"
  by (simp_all add: py_isalnum_def alnum_ranges_def py_isdigit_def digit_ranges_def
      lower_cp_def lowercase_table_def)

theorem non_ascii_letter_counterexample:
  "clean_column_name [0xE9] = Inr [0xE9]
   \<and> \<not> matches_identifier [0xE9]
   \<and> clean_column_name [] = Inl IndexError"
proof -
  have "spec_sanitize [0xE9] = [0xE9]"
    by (simp add: spec_sanitize_def e_acute py_lower_def)
  then have "clean_column_name [0xE9] = Inr [0xE9]"
    using clean_column_name_spec [of "[0xE9]"] by simp
  moreover have "\<not> matches_identifier [0xE9]"
    by (simp add: matches_identifier_def identifier_char_def)
  ultimately show ?thesis
    using clean_column_name_empty by simp
qed

section \<open>Sanitizing twice\<close>







end
